theory Spec2Isabelle
  imports Complex_Main
begin

section \<open>JavaScript strings\<close>

text \<open>
  A JavaScript string is modelled as a \<^typ>\<open>string\<close>: a list of code units, each a
  \<^typ>\<open>char\<close>. The model covers the code units 0..255 (Latin-1); \<open>length\<close> counts code
  units, as the source's \<open>.length\<close> does.
\<close>

definition code :: "char \<Rightarrow> nat" where
  "code c = of_char c"

text \<open>\<open>String.prototype.toLowerCase\<close> on one Latin-1 code unit: A-Z and the accented
  capitals 0xC0-0xDE (without the multiplication sign 0xD7) get bit 5 set.\<close>

fun toLowerChar :: "char \<Rightarrow> char" where
  "toLowerChar (Char b0 b1 b2 b3 b4 b5 b6 b7) =
     (let n = code (Char b0 b1 b2 b3 b4 b5 b6 b7) in
      if (65 \<le> n \<and> n \<le> 90) \<or> (192 \<le> n \<and> n \<le> 222 \<and> n \<noteq> 215)
      then Char b0 b1 b2 b3 b4 True b6 b7
      else Char b0 b1 b2 b3 b4 b5 b6 b7)"

definition toLowerCase :: "string \<Rightarrow> string" where
  "toLowerCase s = map toLowerChar s"

text \<open>ASCII upper-casing of one code unit (the part of \<open>toUpperCase\<close> that stays inside
  Latin-1 for the letters a-z).\<close>

fun toUpperAscii :: "char \<Rightarrow> char" where
  "toUpperAscii (Char b0 b1 b2 b3 b4 b5 b6 b7) =
     (let n = code (Char b0 b1 b2 b3 b4 b5 b6 b7) in
      if 97 \<le> n \<and> n \<le> 122
      then Char b0 b1 b2 b3 b4 False b6 b7
      else Char b0 b1 b2 b3 b4 b5 b6 b7)"

fun startsWith :: "string \<Rightarrow> string \<Rightarrow> bool" where
  "startsWith s [] = True"
| "startsWith [] (y # ys) = False"
| "startsWith (x # xs) (y # ys) = (x = y \<and> startsWith xs ys)"

text \<open>\<open>s.includes(sub)\<close>\<close>

fun includesStr :: "string \<Rightarrow> string \<Rightarrow> bool" where
  "includesStr [] sub = startsWith [] sub"
| "includesStr (x # xs) sub = (startsWith (x # xs) sub \<or> includesStr xs sub)"

text \<open>\<open>s.split(sep)[0]\<close> for a one-character separator: the text before its first
  occurrence (the whole string when there is none).\<close>

definition splitFirst :: "char \<Rightarrow> string \<Rightarrow> string" where
  "splitFirst sep s = takeWhile (\<lambda>c. c \<noteq> sep) s"

text \<open>White space as \<open>\s\<close>, \<open>trim\<close> and \<open>parseInt\<close> see it, within Latin-1: tab, line feed,
  vertical tab, form feed, carriage return, space, no-break space.\<close>

definition isSpace :: "char \<Rightarrow> bool" where
  "isSpace c = (let n = code c in (9 \<le> n \<and> n \<le> 13) \<or> n = 32 \<or> n = 160)"

definition isDigit :: "char \<Rightarrow> bool" where
  "isDigit c = (let n = code c in 48 \<le> n \<and> n \<le> 57)"

definition isUpper :: "char \<Rightarrow> bool" where
  "isUpper c = (let n = code c in 65 \<le> n \<and> n \<le> 90)"

definition isLower :: "char \<Rightarrow> bool" where
  "isLower c = (let n = code c in 97 \<le> n \<and> n \<le> 122)"

text \<open>\<open>\w\<close>: letters, digits, underscore.\<close>

definition isWordChar :: "char \<Rightarrow> bool" where
  "isWordChar c = (isUpper c \<or> isLower c \<or> isDigit c \<or> c = CHR ''_'')"

definition trimStart :: "string \<Rightarrow> string" where
  "trimStart s = dropWhile isSpace s"

definition trim :: "string \<Rightarrow> string" where
  "trim s = rev (dropWhile isSpace (rev (dropWhile isSpace s)))"

text \<open>\<open>s.substring(a, b)\<close> for \<open>0 \<le> a \<le> b\<close>; both ends are clamped to the length.\<close>

definition substring :: "string \<Rightarrow> nat \<Rightarrow> nat \<Rightarrow> string" where
  "substring s a b = take (b - a) (drop a s)"

text \<open>\<open>toUpperCase\<close> on one Latin-1 code unit: a-z and the accented small letters
  0xE0-0xFE (without the division sign 0xF7) get bit 5 cleared, the sharp s becomes \<open>SS\<close>.
  The two letters whose capitals lie beyond Latin-1 (0xB5, 0xFF) are left as they are.\<close>

fun toUpperChar :: "char \<Rightarrow> string" where
  "toUpperChar (Char b0 b1 b2 b3 b4 b5 b6 b7) =
     (let n = code (Char b0 b1 b2 b3 b4 b5 b6 b7) in
      if n = 223 then ''SS''
      else if (97 \<le> n \<and> n \<le> 122) \<or> (224 \<le> n \<and> n \<le> 254 \<and> n \<noteq> 247)
      then [Char b0 b1 b2 b3 b4 False b6 b7]
      else [Char b0 b1 b2 b3 b4 b5 b6 b7])"

definition toUpperCase :: "string \<Rightarrow> string" where
  "toUpperCase s = concat (map toUpperChar s)"

text \<open>\<open>s.split(sep)\<close> for a one-character separator.\<close>

fun splitChar :: "char \<Rightarrow> string \<Rightarrow> string \<Rightarrow> string list" where
  "splitChar sep acc [] = [rev acc]"
| "splitChar sep acc (c # cs) =
     (if c = sep then rev acc # splitChar sep [] cs else splitChar sep (c # acc) cs)"

text \<open>Value of a digit in a radix up to 16, if it is one.\<close>

definition digitValue :: "nat \<Rightarrow> char \<Rightarrow> nat option" where
  "digitValue radix c =
     (let n = code c;
          v = (if 48 \<le> n \<and> n \<le> 57 then Some (n - 48)
               else if 97 \<le> n \<and> n \<le> 102 then Some (n - 87)
               else if 65 \<le> n \<and> n \<le> 70 then Some (n - 55)
               else None)
      in case v of None \<Rightarrow> None | Some d \<Rightarrow> if d < radix then Some d else None)"

fun digitsValue :: "nat \<Rightarrow> nat \<Rightarrow> string \<Rightarrow> nat" where
  "digitsValue radix acc [] = acc"
| "digitsValue radix acc (c # cs) =
     (case digitValue radix c of
        None \<Rightarrow> acc
      | Some d \<Rightarrow> digitsValue radix (acc * radix + d) cs)"

text \<open>\<open>parseInt(s)\<close> without a radix: leading white space, an optional sign, an optional
  \<open>0x\<close> prefix, then the longest run of digits; \<open>None\<close> is \<open>NaN\<close>. The value is kept as
  an exact integer.\<close>

definition parseInt :: "string \<Rightarrow> int option" where
  "parseInt s =
     (let t = trimStart s;
          neg = (case t of [] \<Rightarrow> False | c # _ \<Rightarrow> c = CHR ''-'');
          u = (case t of [] \<Rightarrow> [] | c # cs \<Rightarrow> if c = CHR ''-'' \<or> c = CHR ''+'' then cs else t);
          hex = (startsWith u ''0x'' \<or> startsWith u ''0X'');
          radix = (if hex then 16 else 10);
          ds = (if hex then drop 2 u else u)
      in case ds of
           [] \<Rightarrow> None
         | d # _ \<Rightarrow>
             (case digitValue radix d of
                None \<Rightarrow> None
              | Some _ \<Rightarrow>
                  Some (if neg then - int (digitsValue radix 0 ds)
                        else int (digitsValue radix 0 ds))))"

section \<open>Regular expressions\<close>

text \<open>
  The regular expressions of the source are kept as data and run by one backtracking
  matcher. A character class is a literal, a range, one of the escapes \<open>\s \d \w\<close>, the
  dot, or a bracket expression, plain or negated.
\<close>

datatype cclass =
    CChar char
  | CRange char char
  | CSpace
  | CDigit
  | CWord
  | CAny
  | CUnion "cclass list"
  | CNeg "cclass list"

datatype re =
    Eps
  | Atom cclass
  | Seq re re
  | Alt re re
  | Star re
  | Plus re
  | Opt re
  | Bol
  | Eol
  | WordB
  | Look re
  | Group nat re

fun toLowerAscii :: "char \<Rightarrow> char" where
  "toLowerAscii (Char b0 b1 b2 b3 b4 b5 b6 b7) =
     (let n = code (Char b0 b1 b2 b3 b4 b5 b6 b7) in
      if 65 \<le> n \<and> n \<le> 90
      then Char b0 b1 b2 b3 b4 True b6 b7
      else Char b0 b1 b2 b3 b4 b5 b6 b7)"

definition inRange :: "char \<Rightarrow> char \<Rightarrow> char \<Rightarrow> bool" where
  "inRange lo hi c = (code lo \<le> code c \<and> code c \<le> code hi)"

text \<open>Does the class accept the character? \<open>ci\<close> is the \<open>i\<close> flag: two characters are then
  the same when their canonical (upper-case) forms are; the literals and ranges of the
  source are all ASCII, and no other character canonicalises to an ASCII one.\<close>

fun cmatch :: "bool \<Rightarrow> cclass \<Rightarrow> char \<Rightarrow> bool" where
  "cmatch ci (CChar x) c = (if ci then toUpperAscii c = toUpperAscii x else c = x)"
| "cmatch ci (CRange lo hi) c =
     (if ci then inRange lo hi c \<or> inRange lo hi (toUpperAscii c) \<or> inRange lo hi (toLowerAscii c)
      else inRange lo hi c)"
| "cmatch ci CSpace c = isSpace c"
| "cmatch ci CDigit c = isDigit c"
| "cmatch ci CWord c = isWordChar c"
| "cmatch ci CAny c = (code c \<noteq> 10 \<and> code c \<noteq> 13)"
| "cmatch ci (CUnion ks) c = list_ex (\<lambda>k. cmatch ci k c) ks"
| "cmatch ci (CNeg ks) c = (\<not> list_ex (\<lambda>k. cmatch ci k c) ks)"

text \<open>A matcher state: the character just before the position (none at the start of the
  string), the text from the position on, and the captures made so far.\<close>

type_synonym mstate = "char option \<times> string \<times> (nat \<times> string) list"

definition isWordOpt :: "char option \<Rightarrow> bool" where
  "isWordOpt p = (case p of None \<Rightarrow> False | Some c \<Rightarrow> isWordChar c)"

definition headOpt :: "string \<Rightarrow> char option" where
  "headOpt s = (case s of [] \<Rightarrow> None | c # _ \<Rightarrow> Some c)"

text \<open>Greedy repetition of a step \<open>f\<close>: every round must consume something; the first
  argument bounds the rounds (the text still to read is bound enough).\<close>

fun star :: "string \<Rightarrow> (mstate \<Rightarrow> mstate list) \<Rightarrow> mstate \<Rightarrow> mstate list" where
  "star [] f st = [st]"
| "star (x # fuel) f st =
     concat (map (star fuel f)
               (filter (\<lambda>st'. length (fst (snd st')) < length (fst (snd st))) (f st)))
     @ [st]"

text \<open>All the ways the expression matches at the position, in the order a backtracking
  matcher tries them: the first is the match JavaScript reports.\<close>

fun step :: "bool \<Rightarrow> re \<Rightarrow> mstate \<Rightarrow> mstate list" where
  "step ci Eps st = [st]"
| "step ci (Atom k) (p, s, caps) =
     (case s of
        [] \<Rightarrow> []
      | c # cs \<Rightarrow> if cmatch ci k c then [(Some c, cs, caps)] else [])"
| "step ci (Seq a b) st = concat (map (step ci b) (step ci a st))"
| "step ci (Alt a b) st = step ci a st @ step ci b st"
| "step ci (Star a) (p, s, caps) = star s (step ci a) (p, s, caps)"
| "step ci (Plus a) st =
     concat (map (\<lambda>(p, s, caps). star s (step ci a) (p, s, caps)) (step ci a st))"
| "step ci (Opt a) st = step ci a st @ [st]"
| "step ci Bol (p, s, caps) = (if p = None then [(p, s, caps)] else [])"
| "step ci Eol (p, s, caps) = (if s = [] then [(p, s, caps)] else [])"
| "step ci WordB (p, s, caps) =
     (if isWordOpt p \<noteq> isWordOpt (headOpt s) then [(p, s, caps)] else [])"
| "step ci (Look a) st = (if step ci a st \<noteq> [] then [st] else [])"
| "step ci (Group n a) (p, s, caps) =
     map (\<lambda>(p', s', caps'). (p', s', (n, take (length s - length s') s) # caps'))
       (step ci a (p, s, caps))"

text \<open>Two syntactic properties: may the expression match without consuming a character,
  and which classes can the first character it consumes belong to.\<close>

fun nullable :: "re \<Rightarrow> bool" where
  "nullable Eps = True"
| "nullable (Atom k) = False"
| "nullable (Seq a b) = (nullable a \<and> nullable b)"
| "nullable (Alt a b) = (nullable a \<or> nullable b)"
| "nullable (Star a) = True"
| "nullable (Plus a) = nullable a"
| "nullable (Opt a) = True"
| "nullable Bol = True"
| "nullable Eol = True"
| "nullable WordB = True"
| "nullable (Look a) = True"
| "nullable (Group n a) = nullable a"

fun firsts :: "re \<Rightarrow> cclass list" where
  "firsts Eps = []"
| "firsts (Atom k) = [k]"
| "firsts (Seq a b) = firsts a @ (if nullable a then firsts b else [])"
| "firsts (Alt a b) = firsts a @ firsts b"
| "firsts (Star a) = firsts a"
| "firsts (Plus a) = firsts a"
| "firsts (Opt a) = firsts a"
| "firsts Bol = []"
| "firsts Eol = []"
| "firsts WordB = []"
| "firsts (Look a) = []"
| "firsts (Group n a) = firsts a"

text \<open>Does every match of the expression make capture \<open>n\<close>?\<close>

fun captures :: "nat \<Rightarrow> re \<Rightarrow> bool" where
  "captures n (Seq a b) = (captures n a \<or> captures n b)"
| "captures n (Alt a b) = (captures n a \<and> captures n b)"
| "captures n (Plus a) = captures n a"
| "captures n (Group m a) = (m = n \<or> captures n a)"
| "captures n r = False"

text \<open>A literal text, and a sequence of expressions.\<close>

fun lit :: "string \<Rightarrow> re" where
  "lit [] = Eps"
| "lit (c # cs) = Seq (Atom (CChar c)) (lit cs)"

fun seqs :: "re list \<Rightarrow> re" where
  "seqs [] = Eps"
| "seqs [r] = r"
| "seqs (r # rs) = Seq r (seqs rs)"

text \<open>Exactly \<open>n\<close> times, and between \<open>n\<close> and \<open>n + m\<close> times.\<close>

fun times :: "nat \<Rightarrow> re \<Rightarrow> re" where
  "times 0 r = Eps"
| "times (Suc n) r = Seq r (times n r)"

fun upto :: "nat \<Rightarrow> re \<Rightarrow> re" where
  "upto 0 r = Eps"
| "upto (Suc m) r = Opt (Seq r (upto m r))"

text \<open>\<open>regex.test(s)\<close> for an expression without the \<open>g\<close> flag: is there a match
  anywhere?\<close>

fun searchFrom :: "bool \<Rightarrow> re \<Rightarrow> char option \<Rightarrow> string \<Rightarrow> bool" where
  "searchFrom ci r p [] = (step ci r (p, [], []) \<noteq> [])"
| "searchFrom ci r p (c # cs) =
     (step ci r (p, c # cs, []) \<noteq> [] \<or> searchFrom ci r (Some c) cs)"

definition test :: "bool \<Rightarrow> re \<Rightarrow> string \<Rightarrow> bool" where
  "test ci r s = searchFrom ci r None s"

text \<open>The leftmost match at or after the position: how many characters were skipped to
  reach it, and the state after it.\<close>

fun findFrom :: "bool \<Rightarrow> re \<Rightarrow> char option \<Rightarrow> string \<Rightarrow> (nat \<times> mstate) option" where
  "findFrom ci r p [] =
     (case step ci r (p, [], []) of [] \<Rightarrow> None | st # _ \<Rightarrow> Some (0, st))"
| "findFrom ci r p (c # cs) =
     (case step ci r (p, c # cs, []) of
        st # _ \<Rightarrow> Some (0, st)
      | [] \<Rightarrow> (case findFrom ci r (Some c) cs of
                 None \<Rightarrow> None
               | Some (k, st) \<Rightarrow> Some (Suc k, st)))"

text \<open>A match as \<open>exec\<close> and \<open>match\<close> report it: the index, the matched text, the
  captures.\<close>

record rmatch =
  index :: nat
  matched :: string
  groups :: "(nat \<times> string) list"

text \<open>\<open>s.match(regex)\<close> and \<open>regex.exec(s)\<close> without the \<open>g\<close> flag.\<close>

definition matchRe :: "bool \<Rightarrow> re \<Rightarrow> string \<Rightarrow> rmatch option" where
  "matchRe ci r s =
     (case findFrom ci r None s of
        None \<Rightarrow> None
      | Some (k, (p', s', caps)) \<Rightarrow>
          Some \<lparr>index = k, matched = take (length s - k - length s') (drop k s),
                groups = caps\<rparr>)"

text \<open>Capture \<open>n\<close> of a match; \<open>None\<close> is \<open>undefined\<close>.\<close>

definition capture :: "rmatch \<Rightarrow> nat \<Rightarrow> string option" where
  "capture m n = map_of (groups m) n"

text \<open>
  \<open>while ((match = regex.exec(s)) !== null)\<close> with the \<open>g\<close> flag: every search starts where
  the last match ended. \<open>base\<close> is the index of the text still to search. An empty match
  leaves \<open>lastIndex\<close> where it was and the source's loop never ends: the result is then
  \<open>None\<close>.
\<close>

function execLoop :: "bool \<Rightarrow> re \<Rightarrow> char option \<Rightarrow> string \<Rightarrow> nat \<Rightarrow> rmatch list option" where
  "execLoop ci r p s base =
     (case findFrom ci r p s of
        None \<Rightarrow> Some []
      | Some (k, (p', s', caps)) \<Rightarrow>
          if length s' < length s - k then
            (case execLoop ci r p' s' (base + (length s - length s')) of
               None \<Rightarrow> None
             | Some ms \<Rightarrow>
                 Some (\<lparr>index = base + k,
                         matched = take (length s - k - length s') (drop k s),
                         groups = caps\<rparr> # ms))
          else None)"
  by pat_completeness auto
termination
  by (relation "measure (\<lambda>(ci, r, p, s, base). length s)") auto

declare execLoop.simps [simp del]

definition execAll :: "bool \<Rightarrow> re \<Rightarrow> string \<Rightarrow> rmatch list option" where
  "execAll ci r s = execLoop ci r None s 0"

text \<open>\<open>s.replace(regex, replacement)\<close> with the \<open>g\<close> flag and a replacement without \<open>$\<close>:
  after an empty match the search moves on by one character.\<close>

function replaceFrom :: "bool \<Rightarrow> re \<Rightarrow> string \<Rightarrow> char option \<Rightarrow> string \<Rightarrow> string" where
  "replaceFrom ci r rep p s =
     (case step ci r (p, s, []) of
        (p', s', caps) # _ \<Rightarrow>
          if length s' < length s then rep @ replaceFrom ci r rep p' s'
          else (case s of
                  [] \<Rightarrow> rep
                | c # cs \<Rightarrow> rep @ c # replaceFrom ci r rep (Some c) cs)
      | [] \<Rightarrow> (case s of
                 [] \<Rightarrow> []
               | c # cs \<Rightarrow> c # replaceFrom ci r rep (Some c) cs))"
  by pat_completeness auto
termination
  by (relation "measure (\<lambda>(ci, r, rep, p, s). length s)") auto

declare replaceFrom.simps [simp del]

definition replaceAll :: "bool \<Rightarrow> re \<Rightarrow> string \<Rightarrow> string \<Rightarrow> string" where
  "replaceAll ci r rep s = replaceFrom ci r rep None s"

text \<open>
  \<open>s.split(regex)\<close>: \<open>acc\<close> holds, reversed, the characters between the end of the last
  separator and the position. A match that ends where the last separator ended is
  skipped.
\<close>

function splitFrom :: "bool \<Rightarrow> re \<Rightarrow> char option \<Rightarrow> string \<Rightarrow> string \<Rightarrow> string list" where
  "splitFrom ci r p s acc =
     (case s of
        [] \<Rightarrow> [rev acc]
      | c # cs \<Rightarrow>
          (case step ci r (p, s, []) of
             [] \<Rightarrow> splitFrom ci r (Some c) cs (c # acc)
           | (p', s', caps) # _ \<Rightarrow>
               if length s' < length s then rev acc # splitFrom ci r p' s' []
               else if acc = [] then splitFrom ci r (Some c) cs (c # acc)
               else rev acc # splitFrom ci r (Some c) cs [c]))"
  by pat_completeness auto
termination
  by (relation "measure (\<lambda>(ci, r, p, s, acc). length s)") auto

declare splitFrom.simps [simp del]

definition splitRe :: "bool \<Rightarrow> re \<Rightarrow> string \<Rightarrow> string list" where
  "splitRe ci r s =
     (if s = [] then (if step ci r (None, [], []) = [] then [[]] else [])
      else splitFrom ci r None s [])"

text \<open>\<open>\s+\<close>, \<open>\s*\<close> and \<open>\d+\<close>\<close>

abbreviation ws1 :: re where
  "ws1 \<equiv> Plus (Atom CSpace)"

abbreviation ws0 :: re where
  "ws0 \<equiv> Star (Atom CSpace)"

abbreviation digits1 :: re where
  "digits1 \<equiv> Plus (Atom CDigit)"

section \<open>Search results\<close>

text \<open>The \<open>doctype\<close> field is \<open>string | number\<close>.\<close>

datatype DocType = DTString string | DTNumber int

record SearchResult =
  tid :: int
  title :: string
  doctype :: DocType
  publishdate :: "string option"
  headline :: "string option"
  numcites :: "int option"
  numcitedby :: "int option"
  docsource :: "string option"
  author :: "string option"
  citation :: "string option"
  caseno :: "string option"
  relurl :: "string option"

text \<open>\<open>x || ''\<close> for an optional string: \<open>undefined\<close> and the empty string both give the
  default.\<close>

definition orElse :: "string option \<Rightarrow> string \<Rightarrow> string" where
  "orElse x d = (case x of None \<Rightarrow> d | Some s \<Rightarrow> if s = [] then d else s)"

section \<open>Court identification and relevance score\<close>

text \<open>The label \<open>identifyCourt\<close> looks at, before lower-casing.\<close>

definition courtLabel :: "'a SearchResult_scheme \<Rightarrow> string" where
  "courtLabel doc =
     (case doctype doc of
        DTString s \<Rightarrow> s
      | DTNumber _ \<Rightarrow> orElse (docsource doc) [])"

definition highCourts :: "string list" where
  "highCourts = [''delhi'', ''bombay'', ''madras'', ''calcutta'', ''karnataka'',
                 ''kerala'', ''punjab'', ''gujarat'', ''rajasthan'']"

definition identifyCourt :: "'a SearchResult_scheme \<Rightarrow> string" where
  "identifyCourt doc =
     (let courtStr = toLowerCase (courtLabel doc) in
      if includesStr courtStr ''supreme'' \<or> includesStr courtStr ''apex'' then ''supreme''
      else if includesStr courtStr ''high court'' \<or> includesStr courtStr ''hc'' then ''high''
      else if includesStr courtStr ''district'' \<or> includesStr courtStr ''sessions'' then ''district''
      else if includesStr courtStr ''tribunal'' \<or> includesStr courtStr ''appellate'' then ''tribunal''
      else if includesStr courtStr ''commission'' then ''commission''
      else if list_ex (\<lambda>hc. includesStr courtStr hc) highCourts then ''high''
      else ''other'')"

text \<open>\<open>parseInt(doc.publishdate?.split('-')[0] || '0')\<close>\<close>

definition publishYear :: "'a SearchResult_scheme \<Rightarrow> int option" where
  "publishYear doc =
     parseInt (orElse (map_option (splitFirst CHR ''-'') (publishdate doc)) ''0'')"

text \<open>\<open>doc.numcitedby || 0\<close>\<close>

definition citedBy :: "'a SearchResult_scheme \<Rightarrow> int" where
  "citedBy doc = (case numcitedby doc of None \<Rightarrow> 0 | Some n \<Rightarrow> n)"

text \<open>\<open>calculateRelevanceScore\<close>; \<open>currentYear\<close> stands for \<open>new Date().getFullYear()\<close>.
  The \<open>courtHierarchy\<close> argument of the source is never read. A comparison with \<open>NaN\<close>
  is false. The score is kept as an exact real number.\<close>

definition calculateRelevanceScore :: "'a SearchResult_scheme \<Rightarrow> int \<Rightarrow> real" where
  "calculateRelevanceScore doc currentYear =
     (let score = 1.0;
          courtType = identifyCourt doc;
          score = (if courtType = ''supreme'' then score * 1.5
                   else if courtType = ''high'' then score * 1.2
                   else if courtType = ''district'' then score * 1.0
                   else if courtType = ''tribunal'' then score * 0.9
                   else score);
          score = (case publishYear doc of
                     None \<Rightarrow> score
                   | Some year \<Rightarrow> if currentYear - year \<le> 2 then score * 1.3 else score);
          score = (if citedBy doc > 20 then score * 1.4
                   else if citedBy doc > 10 then score * 1.2
                   else score)
      in score)"

section \<open>HTTP client: responses, retries, cache\<close>

text \<open>A value a request can deliver: a parsed JSON body, or \<open>undefined\<close>.\<close>

datatype payload =
    Undefined
  | Null
  | Bool bool
  | Num real
  | Str string
  | Arr "payload list"
  | Obj "(string \<times> payload) list"

text \<open>JavaScript truthiness, as \<open>if (cached)\<close> tests it.\<close>

fun truthy :: "payload \<Rightarrow> bool" where
  "truthy Undefined = False"
| "truthy Null = False"
| "truthy (Bool b) = b"
| "truthy (Num x) = (x \<noteq> 0)"
| "truthy (Str s) = (s \<noteq> [])"
| "truthy (Arr xs) = True"
| "truthy (Obj kvs) = True"

text \<open>What one \<open>fetch\<close> does: it rejects with an error message, or it resolves to a
  response with a status, a status text and a body; \<open>response.json()\<close> yields the parsed
  body or throws (\<open>Inl\<close>, the error's message).\<close>

datatype fetchOutcome =
    FetchError string
  | Response nat string "string + payload"

text \<open>\<open>response.ok\<close>\<close>

definition ok :: "nat \<Rightarrow> bool" where
  "ok status = (200 \<le> status \<and> status \<le> 299)"

definition digitChar :: "nat \<Rightarrow> char" where
  "digitChar d = ''0123456789'' ! d"

function showNat :: "nat \<Rightarrow> string" where
  "showNat n = (if n < 10 then [digitChar n] else showNat (n div 10) @ [digitChar (n mod 10)])"
  by pat_completeness auto
termination
  by (relation "measure id") auto

declare showNat.simps [simp del]

text \<open>Decimal text of an integer, as a template literal or \<open>toString()\<close> prints it.\<close>

definition showInt :: "int \<Rightarrow> string" where
  "showInt i = (if i < 0 then CHR ''-'' # showNat (nat (- i)) else showNat (nat i))"

text \<open>\<open>formatError\<close>, on the error's message.\<close>

definition formatError :: "string \<Rightarrow> string \<Rightarrow> string" where
  "formatError errorMsg context' =
     (if includesStr errorMsg ''401''
      then ''Authentication failed: Please check your IndianKanoon API key in settings''
      else if includesStr errorMsg ''429''
      then ''Rate limit exceeded: Please wait a moment and try again''
      else if includesStr errorMsg ''Network'' \<or> includesStr errorMsg ''fetch''
      then ''Network error: Please check your internet connection''
      else if includesStr errorMsg ''timeout''
      then ''Request timeout: The server took too long to respond. Try with fewer results''
      else ''Error in '' @ context' @ '': '' @ errorMsg @ [CHR 0x0A]
           @ ''Suggestions: '' @ [CHR 0x0A]
           @ ''1. Verify your API key is valid'' @ [CHR 0x0A]
           @ ''2. Check if the document ID exists'' @ [CHR 0x0A]
           @ ''3. Try with different search terms'')"

text \<open>
  The retry loop of \<open>throttledRequest\<close>. \<open>net k\<close> is the outcome of the \<open>k\<close>-th fetch the
  process performs; \<open>calls\<close> counts the fetches performed so far. The result is what the
  promise settles to (\<open>Inl\<close>: rejected with that error message; \<open>Inr\<close>: resolved), the
  number of fetches performed, and the delays waited, in milliseconds, in order.
  A thrown error inside the \<open>try\<close> block, whatever its origin, lands in the \<open>catch\<close>
  block: rethrown on the last attempt, otherwise followed by a delay of
  \<open>1000 * (attempt + 1)\<close> and the next attempt.
\<close>

definition onCatch ::
  "nat \<Rightarrow> nat \<Rightarrow> string \<Rightarrow> ((string + payload) \<times> nat \<times> nat list)
     \<Rightarrow> ((string + payload) \<times> nat \<times> nat list)" where
  "onCatch retries attempt msg next' =
     (if attempt = retries - 1 then (Inl msg, 1, [])
      else (case next' of (r, n, ds) \<Rightarrow> (r, Suc n, (1000 * (attempt + 1)) # ds)))"

function retryLoop ::
  "(nat \<Rightarrow> fetchOutcome) \<Rightarrow> nat \<Rightarrow> nat \<Rightarrow> nat \<Rightarrow> (string + payload) \<times> nat \<times> nat list" where
  "retryLoop net retries attempt calls =
     (if attempt < retries then
        (case net calls of
           FetchError msg \<Rightarrow>
             onCatch retries attempt msg (retryLoop net retries (attempt + 1) (calls + 1))
         | Response status statusText body \<Rightarrow>
             if status = 429 then
               (case retryLoop net retries (attempt + 1) (calls + 1) of
                  (r, n, ds) \<Rightarrow> (r, Suc n, (2 ^ attempt * 1000) # ds))
             else if \<not> ok status then
               onCatch retries attempt
                 (''API error: '' @ showNat status @ '' '' @ statusText)
                 (retryLoop net retries (attempt + 1) (calls + 1))
             else
               (case body of
                  Inl msg \<Rightarrow>
                    onCatch retries attempt msg (retryLoop net retries (attempt + 1) (calls + 1))
                | Inr data \<Rightarrow> (Inr data, 1, [])))
      else (Inr Undefined, 0, []))"
  by pat_completeness auto
termination
  by (relation "measure (\<lambda>(net, retries, attempt, calls). retries - attempt)") auto

declare retryLoop.simps [simp del]

text \<open>\<open>throttledRequest\<close> with its default of 3 retries: the queue's delay of
  \<open>requestDelay = 100\<close> ms first, then the loop.\<close>

definition requestDelay :: nat where
  "requestDelay = 100"

definition throttledRequest ::
  "(nat \<Rightarrow> fetchOutcome) \<Rightarrow> nat \<Rightarrow> (string + payload) \<times> nat \<times> nat list" where
  "throttledRequest net calls =
     (case retryLoop net 3 0 calls of (r, n, ds) \<Rightarrow> (r, n, requestDelay # ds))"

text \<open>The client of \<open>index.ts\<close>: its cache maps a key to the data and the time of
  insertion; \<open>cacheTimeout\<close> is in milliseconds (\<open>config.cacheTimeout * 60 * 1000\<close>).\<close>

record IndianKanoonClient =
  cache :: "string \<rightharpoonup> (payload \<times> int)"
  cacheTimeout :: int
  enableCaching :: bool

definition newClient :: "int \<Rightarrow> bool \<Rightarrow> IndianKanoonClient" where
  "newClient configCacheTimeout configEnableCaching =
     \<lparr>cache = Map.empty, cacheTimeout = configCacheTimeout * 60 * 1000,
      enableCaching = configEnableCaching\<rparr>"

definition getCacheKey :: "string \<Rightarrow> string \<Rightarrow> string" where
  "getCacheKey endpoint paramsJson = endpoint @ '':'' @ paramsJson"

text \<open>\<open>getFromCache\<close>; \<open>now\<close> is \<open>Date.now()\<close>. \<open>None\<close> is the source's \<open>null\<close>. The
  client is returned as the read leaves it.\<close>

definition getFromCache ::
  "IndianKanoonClient \<Rightarrow> int \<Rightarrow> string \<Rightarrow> payload option \<times> IndianKanoonClient" where
  "getFromCache c now key =
     (if \<not> enableCaching c then (None, c)
      else case cache c key of
             None \<Rightarrow> (None, c)
           | Some (data, timestamp) \<Rightarrow>
               if now - timestamp > cacheTimeout c
               then (None, c\<lparr>cache := (cache c)(key := None)\<rparr>)
               else (Some data, c))"

definition setCache :: "IndianKanoonClient \<Rightarrow> int \<Rightarrow> string \<Rightarrow> payload \<Rightarrow> IndianKanoonClient" where
  "setCache c now key data =
     (if \<not> enableCaching c then c
      else c\<lparr>cache := (cache c)(key \<mapsto> (data, now))\<rparr>)"

text \<open>
  The body shared by \<open>search\<close>, \<open>getDocument\<close>, \<open>getDocumentFragments\<close> and
  \<open>getDocumentMetadata\<close>: look the key up, return a truthy cached value, otherwise go
  through \<open>throttledRequest\<close>, store and return what it resolved to, or reject with
  \<open>formatError\<close> of what it threw. \<open>tRead\<close> and \<open>tStore\<close> are the readings of \<open>Date.now()\<close>
  in \<open>getFromCache\<close> and in \<open>setCache\<close>. The result comes with the client afterwards and
  the number of fetches performed.
\<close>

definition clientRequest ::
  "string \<Rightarrow> IndianKanoonClient \<Rightarrow> (nat \<Rightarrow> fetchOutcome) \<Rightarrow> nat \<Rightarrow> int \<Rightarrow> int \<Rightarrow> string
     \<Rightarrow> (string + payload) \<times> IndianKanoonClient \<times> nat" where
  "clientRequest context' c net calls tRead tStore key =
     (case getFromCache c tRead key of
        (cached, c1) \<Rightarrow>
          (case (case cached of None \<Rightarrow> None | Some d \<Rightarrow> if truthy d then Some d else None) of
             Some d \<Rightarrow> (Inr d, c1, 0)
           | None \<Rightarrow>
               (case throttledRequest net calls of
                  (Inr data, n, ds) \<Rightarrow> (Inr data, setCache c1 tStore key data, n)
                | (Inl msg, n, ds) \<Rightarrow> (Inl (formatError msg context'), c1, n))))"

text \<open>The client of \<open>api-client.ts\<close>: the same cache, the time-out read from the
  configuration at each lookup (\<open>(config.cacheTimeout || 60) * 60 * 1000\<close>), one fetch
  and no retry.\<close>

record IndianKanoonAPIClient =
  apiCache :: "string \<rightharpoonup> (payload \<times> int)"
  configCacheTimeout :: "int option"
  configEnableCaching :: bool

definition getCachedData ::
  "IndianKanoonAPIClient \<Rightarrow> int \<Rightarrow> string \<Rightarrow> payload option \<times> IndianKanoonAPIClient" where
  "getCachedData c now key =
     (if \<not> configEnableCaching c then (None, c)
      else case apiCache c key of
             None \<Rightarrow> (None, c)
           | Some (data, timestamp) \<Rightarrow>
               let cacheTimeout =
                     (case configCacheTimeout c of
                        None \<Rightarrow> 60
                      | Some m \<Rightarrow> if m = 0 then 60 else m) * 60 * 1000
               in if now - timestamp > cacheTimeout
                  then (None, c\<lparr>apiCache := (apiCache c)(key := None)\<rparr>)
                  else (Some data, c))"

definition setCachedData ::
  "IndianKanoonAPIClient \<Rightarrow> int \<Rightarrow> string \<Rightarrow> payload \<Rightarrow> IndianKanoonAPIClient" where
  "setCachedData c now key data =
     (if \<not> configEnableCaching c then c
      else c\<lparr>apiCache := (apiCache c)(key \<mapsto> (data, now))\<rparr>)"

definition makeRequest ::
  "IndianKanoonAPIClient \<Rightarrow> (nat \<Rightarrow> fetchOutcome) \<Rightarrow> nat \<Rightarrow> int \<Rightarrow> int \<Rightarrow> string
     \<Rightarrow> (string + payload) \<times> IndianKanoonAPIClient \<times> nat" where
  "makeRequest c net calls tRead tStore key =
     (case getCachedData c tRead key of
        (cached, c1) \<Rightarrow>
          (case (case cached of None \<Rightarrow> None | Some d \<Rightarrow> if truthy d then Some d else None) of
             Some d \<Rightarrow> (Inr d, c1, 0)
           | None \<Rightarrow>
               (case net calls of
                  FetchError msg \<Rightarrow> (Inl (''IndianKanoon API error: '' @ msg), c1, 1)
                | Response status statusText body \<Rightarrow>
                    if \<not> ok status then
                      (Inl (''IndianKanoon API error: '' @
                         (if status = 401 then ''Invalid API key''
                          else if status = 429 then ''Rate limit exceeded. Please try again later.''
                          else ''API request failed: '' @ showNat status @ '' '' @ statusText)),
                       c1, 1)
                    else
                      (case body of
                         Inl msg \<Rightarrow> (Inl (''IndianKanoon API error: '' @ msg), c1, 1)
                       | Inr data \<Rightarrow> (Inr data, setCachedData c1 tStore key data, 1)))))"

text \<open>Scenarios: an upstream that answers every fetch with 429; one that answers 500 once
  and then 200; one that always answers 200 with a search result object.\<close>

definition alwaysRateLimited :: "nat \<Rightarrow> fetchOutcome" where
  "alwaysRateLimited k = Response 429 ''Too Many Requests'' (Inr (Obj []))"

definition failsOnceThenOk :: "nat \<Rightarrow> fetchOutcome" where
  "failsOnceThenOk k =
     (if k = 0 then Response 500 ''Internal Server Error'' (Inr (Obj []))
      else Response 200 ''OK'' (Inr (Obj [(''docs'', Arr [])])))"

definition alwaysOk :: "nat \<Rightarrow> fetchOutcome" where
  "alwaysOk k = Response 200 ''OK'' (Inr (Obj [(''docs'', Arr [])]))"

definition searchKey :: string where
  "searchKey = getCacheKey ''/search/'' ''{\"formInput\":\"bail\",\"pagenum\":\"0\"}''"

text \<open>A client (60 minutes of time-out) holding, for \<open>searchKey\<close>, the value \<open>data\<close>
  inserted at time 0.\<close>

definition clientHolding :: "payload \<Rightarrow> IndianKanoonClient" where
  "clientHolding data = setCache (newClient 60 True) 0 searchKey data"

definition apiClientHolding :: "payload \<Rightarrow> IndianKanoonAPIClient" where
  "apiClientHolding data =
     setCachedData \<lparr>apiCache = Map.empty, configCacheTimeout = Some 60,
                     configEnableCaching = True\<rparr> 0 searchKey data"

section \<open>Legal-weight classification\<close>














text \<open>\<open>patterns.filter(pattern => pattern.test(para.text))\<close>\<close>

definition matches :: "re list \<Rightarrow> string \<Rightarrow> re list" where
  "matches patterns text = filter (\<lambda>pattern. test True pattern text) patterns"



section \<open>Query preprocessing\<close>

text \<open>\<open>[...new Set(xs)]\<close>: the first occurrence of every element, in order.\<close>

fun dedupe :: "'a list \<Rightarrow> 'a list" where
  "dedupe [] = []"
| "dedupe (x # xs) = x # dedupe (filter (\<lambda>y. y \<noteq> x) xs)"

text \<open>\<open>xs.join(sep)\<close>\<close>

fun joinWith :: "string \<Rightarrow> string list \<Rightarrow> string" where
  "joinWith sep [] = []"
| "joinWith sep [x] = x"
| "joinWith sep (x # xs) = x @ sep @ joinWith sep xs"

record sectionRange =
  rmin :: int
  rmax :: int

definition VALID_IPC_SECTIONS :: sectionRange where
  "VALID_IPC_SECTIONS = \<lparr>rmin = 1, rmax = 511\<rparr>"

definition VALID_BNS_SECTIONS :: sectionRange where
  "VALID_BNS_SECTIONS = \<lparr>rmin = 1, rmax = 358\<rparr>"

definition VALID_CRPC_SECTIONS :: sectionRange where
  "VALID_CRPC_SECTIONS = \<lparr>rmin = 1, rmax = 484\<rparr>"

record sectionValidation =
  isValid :: bool
  suggestion :: "string option"
  nearestValid :: "string list option"

definition commonMistakes :: "(string \<times> string list) list" where
  "commonMistakes =
     [(''823'', [''323'', ''423'']),
      (''523'', [''323'', ''423'']),
      (''325'', [''323'', ''324'', ''326'']),
      (''121'', [''120'', ''120A'', ''120B'']),
      (''412'', [''411'', ''413'', ''414'']),
      (''299'', [''299'', ''300'', ''302'']),
      (''380'', [''379'', ''381'', ''382''])]"

text \<open>\<open>/^(\d+)([A-Z])?$/\<close>\<close>

definition sectionNumberPattern :: re where
  "sectionNumberPattern =
     seqs [Bol, Group 1 digits1, Opt (Group 2 (Atom (CRange (CHR ''A'') (CHR ''Z'')))), Eol]"

definition inSectionRange :: "sectionRange \<Rightarrow> int \<Rightarrow> bool" where
  "inSectionRange rng n = (n \<ge> rmin rng \<and> n \<le> rmax rng)"

text \<open>\<open>validateSection\<close>. The first capture is a run of digits, so \<open>parseInt\<close> of it is a
  number; were it not, every comparison would be false.\<close>

definition validateSection :: "string \<Rightarrow> string \<Rightarrow> sectionValidation" where
  "validateSection sectionNum codeType =
     (case matchRe False sectionNumberPattern sectionNum of
        None \<Rightarrow> \<lparr>isValid = False, suggestion = Some ''Invalid section format'',
                  nearestValid = None\<rparr>
      | Some numMatch \<Rightarrow>
          (case parseInt (case capture numMatch 1 of None \<Rightarrow> [] | Some g \<Rightarrow> g) of
             None \<Rightarrow> \<lparr>isValid = False,
                       suggestion = Some (''Section '' @ sectionNum @ '' appears invalid for ''
                                          @ codeType),
                       nearestValid = Some []\<rparr>
           | Some num \<Rightarrow>
               let rng = (if codeType = ''BNS'' then VALID_BNS_SECTIONS
                            else if codeType = ''CrPC'' then VALID_CRPC_SECTIONS
                            else VALID_IPC_SECTIONS)
               in if inSectionRange rng num
                  then \<lparr>isValid = True, suggestion = None, nearestValid = None\<rparr>
                  else
                    let known = (case map_of commonMistakes (showInt num) of
                                   None \<Rightarrow> []
                                 | Some fixes \<Rightarrow> fixes);
                        withoutFirst = drop 1 (showInt num);
                        stripped =
                          (if num > rmax rng \<and> num > 100 \<and> length withoutFirst > 0
                           then (case parseInt withoutFirst of
                                   None \<Rightarrow> []
                                 | Some suggested \<Rightarrow>
                                     if inSectionRange rng suggested then [withoutFirst]
                                     else [])
                           else []);
                        nearby = map (\<lambda>offset. showInt (num + offset))
                                   (filter (\<lambda>offset. inSectionRange rng (num + offset))
                                      [-1, 1, -2, 2, -10, 10])
                    in \<lparr>isValid = False,
                        suggestion = Some (''Section '' @ sectionNum @ '' appears invalid for ''
                                           @ codeType),
                        nearestValid = Some (take 5 (dedupe (known @ stripped @ nearby)))\<rparr>))"

record validatedSection =
  original :: string
  validated :: string
  vsIsValid :: bool
  suggestions :: "string list option"

record ProcessedQuery =
  originalQuery :: string
  normalizedQuery :: string
  extractedSections :: "string list"
  validatedSections :: "validatedSection list"
  legalConcepts :: "string list"
  searchVariants :: "string list"

text \<open>The four section patterns and the three concept patterns, all with the flags
  \<open>gi\<close>.\<close>

definition sectionPatterns :: "re list" where
  "sectionPatterns =
     [seqs [WordB, lit ''section'', Opt (Atom (CChar (CHR ''s''))), ws1,
            Group 1 (seqs [digits1, Opt (Atom (CRange (CHR ''A'') (CHR ''Z''))),
                           Star (seqs [ws0, lit '','', ws0, digits1,
                                       Opt (Atom (CRange (CHR ''A'') (CHR ''Z'')))])])],
      seqs [WordB, lit ''u/s'', ws1,
            Group 1 (seqs [digits1, Opt (Atom (CRange (CHR ''A'') (CHR ''Z''))),
                           Star (seqs [ws0, lit '','', ws0, digits1,
                                       Opt (Atom (CRange (CHR ''A'') (CHR ''Z'')))])])],
      seqs [WordB, lit ''sec'', Opt (Atom (CChar (CHR ''.''))), ws1,
            Group 1 (seqs [digits1, Opt (Atom (CRange (CHR ''A'') (CHR ''Z'')))])],
      seqs [WordB,
            Group 1 (seqs [times 3 (Atom (CDigit)), Opt (Atom (CRange (CHR ''A'') (CHR ''Z'')))]),
            ws1, Alt (lit ''IPC'') (Alt (lit ''BNS'') (lit ''CrPC''))]]"

definition conceptPatterns :: "re list" where
  "conceptPatterns =
     [seqs [WordB,
            Group 1 (Alt (lit ''bail'') (Alt (lit ''quashing'') (Alt (lit ''compromise'')
                    (Alt (lit ''arrest'') (Alt (lit ''conviction'') (Alt (lit ''acquittal'')
                    (lit ''sentence''))))))),
            WordB],
      seqs [WordB,
            Group 1 (Alt (lit ''prima facie'') (Alt (lit ''mens rea'') (Alt (lit ''actus reus'')
                    (Alt (lit ''mala fide'') (lit ''bona fide''))))),
            WordB],
      seqs [WordB,
            Group 1 (Alt (lit ''common intention'') (Alt (lit ''criminal conspiracy'')
                    (lit ''abetment''))),
            WordB]]"

text \<open>\<open>match[1]\<close> of every match of every pattern, pattern by pattern; \<open>None\<close> when a loop
  does not end or a match has no first capture (\<open>match[1]\<close> would be \<open>undefined\<close>).\<close>

fun firstCaptures :: "rmatch list \<Rightarrow> string list option" where
  "firstCaptures [] = Some []"
| "firstCaptures (m # ms) =
     (case capture m 1 of
        None \<Rightarrow> None
      | Some g \<Rightarrow> (case firstCaptures ms of None \<Rightarrow> None | Some gs \<Rightarrow> Some (g # gs)))"

fun capturesOfAll :: "re list \<Rightarrow> string \<Rightarrow> string list option" where
  "capturesOfAll [] query = Some []"
| "capturesOfAll (pattern # patterns) query =
     (case execAll True pattern query of
        None \<Rightarrow> None
      | Some ms \<Rightarrow>
          (case firstCaptures ms of
             None \<Rightarrow> None
           | Some gs \<Rightarrow>
               (case capturesOfAll patterns query of
                  None \<Rightarrow> None
                | Some rest \<Rightarrow> Some (gs @ rest))))"

definition detectCodeType :: "string \<Rightarrow> string" where
  "detectCodeType query =
     (if includesStr (toLowerCase query) ''bns'' then ''BNS''
      else if includesStr (toLowerCase query) ''crpc'' then ''CrPC''
      else ''IPC'')"

text \<open>\<open>match[1].split(/\s*,\s*/)\<close>, each part trimmed.\<close>

definition sectionsOf :: "string \<Rightarrow> string list" where
  "sectionsOf g = map trim (splitRe False (seqs [ws0, lit '','', ws0]) g)"

definition validateExtracted :: "string \<Rightarrow> string \<Rightarrow> validatedSection" where
  "validateExtracted codeType trimmed =
     (let validation = validateSection trimmed codeType in
      \<lparr>original = trimmed,
       validated = (if isValid validation then trimmed
                    else (case nearestValid validation of
                            None \<Rightarrow> trimmed
                          | Some [] \<Rightarrow> trimmed
                          | Some (first # _) \<Rightarrow> if first = [] then trimmed else first)),
       vsIsValid = isValid validation,
       suggestions = nearestValid validation\<rparr>)"

definition normalizeQuery :: "string \<Rightarrow> string" where
  "normalizeQuery query =
     (let normalized = replaceAll True (seqs [WordB, lit ''u/s'', WordB]) ''under Section'' query;
          normalized = replaceAll True (seqs [WordB, lit ''r/w'', WordB]) ''read with'' normalized;
          normalized = replaceAll True (seqs [WordB, lit ''Sec'', Opt (Atom (CChar (CHR ''.''))), ws1])
                         ''Section '' normalized
      in trim (replaceAll False ws1 '' '' normalized))"

definition searchVariantsOf :: "string list \<Rightarrow> string list \<Rightarrow> string \<Rightarrow> string list" where
  "searchVariantsOf sections concepts normalized =
     (if length sections > 0
      then [joinWith '' '' (map (\<lambda>s. [CHR 0x22] @ ''Section '' @ s @ [CHR 0x22]) sections),
            joinWith '' '' (map (\<lambda>s. ''Section '' @ s @ '' IPC'') sections)]
           @ (if length concepts > 0 then [hd sections @ '' '' @ hd concepts] else [])
      else [])
     @ [normalized, replaceAll False ws1 '' ANDD '' normalized]"

text \<open>\<open>preprocessQuery\<close>; \<open>None\<close> when one of its \<open>exec\<close> loops does not return.\<close>

definition preprocessQuery :: "string \<Rightarrow> ProcessedQuery option" where
  "preprocessQuery query =
     (case capturesOfAll sectionPatterns query of
        None \<Rightarrow> None
      | Some sectionGroups \<Rightarrow>
          (case capturesOfAll conceptPatterns query of
             None \<Rightarrow> None
           | Some conceptGroups \<Rightarrow>
               let sections = concat (map sectionsOf sectionGroups);
                   concepts = map toLowerCase conceptGroups;
                   normalized = normalizeQuery query
               in Some \<lparr>originalQuery = query,
                         normalizedQuery = normalized,
                         extractedSections = sections,
                         validatedSections =
                           map (validateExtracted (detectCodeType query)) sections,
                         legalConcepts = concepts,
                         searchVariants = searchVariantsOf sections concepts normalized\<rparr>))"

section \<open>Search failure analysis\<close>

definition stopWords :: "string list" where
  "stopWords = [''under'', ''section'', ''with'', ''read'']"

text \<open>The \<open>mainKeywords\<close> of \<open>generateAlternativeQueries\<close>.\<close>

definition mainKeywords :: "string \<Rightarrow> string list" where
  "mainKeywords originalQuery' =
     take 3 (filter (\<lambda>w. length w > 4 \<and> toLowerCase w \<notin> set stopWords)
               (splitRe False ws1
                  (replaceAll False (Atom (CNeg [CWord, CSpace])) '' '' originalQuery')))"

definition withoutQuotes :: "string \<Rightarrow> string" where
  "withoutQuotes originalQuery' =
     trim (replaceAll False
             (seqs [Atom (CChar (CHR 0x22)), Star (Atom (CNeg [CChar (CHR 0x22)])),
                    Atom (CChar (CHR 0x22))])
             [] originalQuery')"

definition generateAlternativeQueries :: "string \<Rightarrow> 'a ProcessedQuery_scheme \<Rightarrow> string list" where
  "generateAlternativeQueries originalQuery' processed =
     (let alternatives =
            (if length (extractedSections processed) > 0
             then [joinWith '' '' (map (\<lambda>s. ''Section '' @ s) (extractedSections processed)),
                   joinWith '' ORR ''
                     (map (\<lambda>s. [CHR 0x22] @ ''Section '' @ s @ [CHR 0x22] @ '' IPC'')
                        (extractedSections processed))]
             else [])
            @ (if length (legalConcepts processed) > 0
               then [joinWith '' '' (legalConcepts processed)]
                    @ (if length (extractedSections processed) > 0
                       then [hd (legalConcepts processed) @ '' ''
                             @ hd (extractedSections processed)]
                       else [])
               else [])
            @ (if withoutQuotes originalQuery' \<noteq> originalQuery'
                  \<and> length (withoutQuotes originalQuery') > 0
               then [withoutQuotes originalQuery'] else [])
            @ (if length (mainKeywords originalQuery') > 0
               then [joinWith '' '' (mainKeywords originalQuery')] else []);
          alternatives =
            (if length alternatives = 0
             then (if includesStr (toLowerCase originalQuery') ''bail''
                   then [''bail application granted'', ''anticipatory bail guidelines''] else [])
                  @ (if includesStr (toLowerCase originalQuery') ''quash''
                     then [''482 CrPC quashing'', ''FIR quashing grounds''] else [])
             else alternatives)
      in take 5 (dedupe alternatives))"

record failureAnalysis =
  reason :: string
  faSuggestions :: "string list"
  alternativeQueries :: "string list"

text \<open>\<open>parseInt(s)\<close> of a section is beyond 511 or below 1; false for \<open>NaN\<close>.\<close>

definition uncommonSection :: "string \<Rightarrow> bool" where
  "uncommonSection s = (case parseInt s of None \<Rightarrow> False | Some num \<Rightarrow> num > 511 \<or> num < 1)"

definition analyzeSearchFailure :: "string \<Rightarrow> 'a ProcessedQuery_scheme \<Rightarrow> failureAnalysis" where
  "analyzeSearchFailure query processed =
     (let analysis = \<lparr>reason = [], faSuggestions = [], alternativeQueries = []\<rparr>;
          analysis =
            (if length (splitRe False ws1 query) > 10
             then analysis\<lparr>reason := ''Query may be too specific'',
                    faSuggestions := faSuggestions analysis
                      @ [''Try using fewer words or just the key legal terms'']\<rparr>
             else analysis);
          analysis =
            (if length (extractedSections processed) > 0
                \<and> length (filter uncommonSection (extractedSections processed)) > 0
             then analysis\<lparr>reason := ''Some section numbers appear invalid'',
                    faSuggestions := faSuggestions analysis
                      @ [''Verify the section numbers are correct'',
                         ''Try searching without section numbers'']\<rparr>
             else analysis);
          analysis =
            (if includesStr query ''civil'' \<and> includesStr query ''IPC''
             then analysis\<lparr>reason := ''Query mixes civil and criminal law terms'',
                    faSuggestions := faSuggestions analysis
                      @ [''IPC is for criminal cases - remove \"civil\" from query'']\<rparr>
             else analysis);
          analysis =
            (if reason analysis = []
             then analysis\<lparr>reason := ''No exact matches found for your query'',
                    faSuggestions := faSuggestions analysis
                      @ [''Try broadening your search terms'',
                         ''Remove quotes to allow partial matches'',
                         ''Search for the general legal principle instead of specific facts'']\<rparr>
             else analysis)
      in analysis\<lparr>alternativeQueries := generateAlternativeQueries query processed\<rparr>)"

section \<open>Text normalisation\<close>

abbreviation upperAZ :: re where
  "upperAZ \<equiv> Atom (CRange (CHR ''A'') (CHR ''Z''))"

abbreviation lowerAZ :: re where
  "lowerAZ \<equiv> Atom (CRange (CHR ''a'') (CHR ''z''))"

abbreviation quote :: re where
  "quote \<equiv> Atom (CChar (CHR 0x22))"

abbreviation newline :: re where
  "newline \<equiv> Atom (CChar (CHR 0x0A))"

text \<open>\<open>match[n]\<close> of the first match, if there is a match and it made that capture.\<close>

definition firstCapture :: "bool \<Rightarrow> re \<Rightarrow> nat \<Rightarrow> string \<Rightarrow> string option" where
  "firstCapture ci r n s =
     (case matchRe ci r s of None \<Rightarrow> None | Some m \<Rightarrow> capture m n)"

text \<open>\<open>a || b\<close> on optional strings: the first that is neither \<open>undefined\<close> nor empty.\<close>

definition orOpt :: "string option \<Rightarrow> string option \<Rightarrow> string option" where
  "orOpt a b = (case a of None \<Rightarrow> b | Some x \<Rightarrow> if x = [] then b else Some x)"

text \<open>\<open>extractRealParagraphNumber\<close>: five strategies, the first that matches decides.\<close>

definition extractRealParagraphNumber :: "string \<Rightarrow> string option" where
  "extractRealParagraphNumber htmlFragment =
     (case matchRe False
             (seqs [lit ''data-structure='', quote, Star (Atom (CNeg [CChar (CHR 0x22)])), quote,
                    ws1, lit ''id='', quote, lit ''p_'', Group 1 digits1, quote])
             htmlFragment of
        Some m \<Rightarrow> capture m 1
      | None \<Rightarrow>
     (case matchRe True
             (seqs [Alt (lit ''<p'') (lit ''<div''), Star (Atom (CNeg [CChar (CHR ''>'')])),
                    Atom CSpace, lit ''id='', quote,
                    Alt (lit ''p_'') (seqs [lit ''para'', Opt (Atom (CChar (CHR ''_'')))]),
                    Group 1 digits1, quote])
             htmlFragment of
        Some m \<Rightarrow> capture m 1
      | None \<Rightarrow>
     (case matchRe True
             (seqs [lit ''<blockquote'', Star (Atom (CNeg [CChar (CHR ''>'')])), Atom CSpace,
                    lit ''id='', quote, lit ''blockquote_'', Group 1 digits1, quote])
             htmlFragment of
        Some m \<Rightarrow> capture m 1
      | None \<Rightarrow>
     (case matchRe False
             (seqs [Alt Bol (Atom CSpace), Group 1 digits1, lit ''.'', ws0, Look upperAZ])
             htmlFragment of
        Some m \<Rightarrow> capture m 1
      | None \<Rightarrow>
     (case matchRe True
             (Alt (seqs [lit ''['', Group 1 digits1, lit '']''])
                (Alt (seqs [Atom (CChar (CHR 0xB6)), ws0, Group 2 digits1])
                     (seqs [lit ''para'', Opt (lit ''graph''), ws1, Group 3 digits1])))
             htmlFragment of
        Some m \<Rightarrow> orOpt (capture m 1) (orOpt (capture m 2) (capture m 3))
      | None \<Rightarrow> None)))))"

text \<open>The named entities of \<open>stripHtml\<close>, in the order of the object literal. The em dash
  that \<open>&mdash;\<close> stands for lies beyond Latin-1; the code unit 0x97 stands in for it, one
  code unit like the original.\<close>

definition entities :: "(string \<times> string) list" where
  "entities =
     [(''&nbsp;'', '' ''),
      (''&amp;'', ''&''),
      (''&lt;'', ''<''),
      (''&gt;'', ''>''),
      (''&quot;'', [CHR 0x22]),
      (''&#39;'', [CHR 0x27]),
      (''&rsquo;'', [CHR 0x27]),
      (''&lsquo;'', [CHR 0x27]),
      (''&rdquo;'', [CHR 0x22]),
      (''&ldquo;'', [CHR 0x22]),
      (''&ndash;'', ''-''),
      (''&mdash;'', [CHR 0x97])]"

text \<open>\<open>stripHtml\<close>\<close>

definition stripHtml :: "string \<Rightarrow> bool \<Rightarrow> string" where
  "stripHtml html preserveStructure =
     (let paraNum = extractRealParagraphNumber html;
          text = replaceAll True (seqs [lit ''<br'', ws0, Opt (Atom (CChar (CHR ''/''))), lit ''>''])
                   [CHR 0x0A] html;
          text = replaceAll True (lit ''</p>'') [CHR 0x0A, CHR 0x0A] text;
          text = replaceAll True (lit ''</div>'') [CHR 0x0A] text;
          text = replaceAll False (seqs [lit ''<'', Star (Atom (CNeg [CChar (CHR ''>'')])), lit ''>''])
                   [] text;
          text = foldl (\<lambda>text (entity, char'). replaceAll False (lit entity) char' text)
                   text entities;
          text = replaceAll False (seqs [times 3 newline, Star newline]) [CHR 0x0A, CHR 0x0A] text;
          text = replaceAll False (Plus (Atom (CUnion [CChar (CHR '' ''), CChar (CHR 0x09)])))
                   '' '' text;
          text = (case paraNum of
                    None \<Rightarrow> text
                  | Some n \<Rightarrow> if preserveStructure \<and> n \<noteq> []
                              then ''[Para '' @ n @ ''] '' @ text else text)
      in trim text)"

section \<open>Sentence boundaries and paragraphs\<close>

definition sentenceEndings :: "re list" where
  "sentenceEndings =
     [seqs [lit ''.'', ws1, upperAZ],
      seqs [lit ''.'', quote, ws1],
      seqs [lit ''.)'', ws1],
      seqs [lit ''?'', ws1],
      seqs [lit ''!'', ws1],
      seqs [lit ''.'', ws0, Eol]]"

definition fallbackPatterns :: "re list" where
  "fallbackPatterns =
     [seqs [lit '';'', ws1],
      seqs [lit '':'', ws1],
      seqs [newline, newline],
      seqs [lit ''.'', ws0]]"

text \<open>The indices of all matches of every pattern (flag \<open>g\<close>, no \<open>i\<close>), pattern by pattern;
  \<open>None\<close> when a loop does not end.\<close>

fun matchIndices :: "re list \<Rightarrow> string \<Rightarrow> nat list list option" where
  "matchIndices [] s = Some []"
| "matchIndices (pattern # patterns) s =
     (case execAll False pattern s of
        None \<Rightarrow> None
      | Some ms \<Rightarrow>
          (case matchIndices patterns s of
             None \<Rightarrow> None
           | Some rest \<Rightarrow> Some (map index ms # rest)))"

text \<open>The first loop keeps, over all matches, the greatest position below the bound; the
  second takes, per pattern, the first match that improves on the best so far.\<close>

definition better :: "real \<Rightarrow> real \<Rightarrow> real \<Rightarrow> bool" where
  "better bound best position = (position < bound \<and> position > best)"

definition scanAll :: "real \<Rightarrow> real \<Rightarrow> real \<Rightarrow> nat list \<Rightarrow> real" where
  "scanAll offset bound best indices =
     foldl (\<lambda>best i. if better bound best (offset + real i + 1) then offset + real i + 1 else best)
       best indices"

definition scanFirst :: "real \<Rightarrow> real \<Rightarrow> real \<Rightarrow> nat list \<Rightarrow> real" where
  "scanFirst offset bound best indices =
     (case filter (\<lambda>i. better bound best (offset + real i + 1)) indices of
        [] \<Rightarrow> best
      | i # _ \<Rightarrow> offset + real i + 1)"

text \<open>
  \<open>findSentenceBoundary\<close>. \<open>minLength\<close> is \<open>Math.min(1000, maxLength * 0.7)\<close>, kept as an
  exact number; \<open>substring\<close> truncates its arguments to integers. \<open>None\<close> when one of the
  \<open>exec\<close> loops does not end.
\<close>

definition findSentenceBoundary :: "string \<Rightarrow> nat \<Rightarrow> nat \<Rightarrow> real option" where
  "findSentenceBoundary text startPos maxLength =
     (if length text \<le> maxLength then Some (real (length text))
      else
        let minLength = min 1000 (real maxLength * 0.7);
            searchText = substring text (nat \<lfloor>real startPos + minLength\<rfloor>)
                           (startPos + maxLength + 200);
            offset = real startPos + minLength;
            bound = real (startPos + maxLength)
        in case matchIndices sentenceEndings searchText of
             None \<Rightarrow> None
           | Some found \<Rightarrow>
               let bestPosition = foldl (scanAll offset bound) (- 1) found
               in if bestPosition = - 1
                  then (case matchIndices fallbackPatterns searchText of
                          None \<Rightarrow> None
                        | Some found \<Rightarrow>
                            let bestPosition = foldl (scanFirst offset bound) bestPosition found
                            in Some (if bestPosition > 0 then bestPosition
                                     else real (startPos + maxLength)))
                  else Some (if bestPosition > 0 then bestPosition
                             else real (startPos + maxLength)))"

record extractedParagraph =
  ptext :: string
  paragraphNumber :: string
  isComplete :: bool

text \<open>The body of the loop of \<open>extractCompleteParagraphs\<close>, for the fragment at index
  \<open>i\<close>.\<close>

definition completeParagraph :: "nat \<Rightarrow> nat \<Rightarrow> string \<Rightarrow> extractedParagraph option" where
  "completeParagraph maxLength i fragment =
     (let paraNum = (case orOpt (extractRealParagraphNumber fragment) None of
                       None \<Rightarrow> showNat (i + 1)
                     | Some n \<Rightarrow> n);
          cleanText = stripHtml fragment False
      in if length cleanText \<le> maxLength
         then Some \<lparr>ptext = cleanText, paragraphNumber = paraNum, isComplete = True\<rparr>
         else (case findSentenceBoundary cleanText 0 maxLength of
                 None \<Rightarrow> None
               | Some boundary \<Rightarrow>
                   Some \<lparr>ptext = substring cleanText 0 (nat \<lfloor>boundary\<rfloor>),
                         paragraphNumber = paraNum,
                         isComplete = (boundary \<ge> real (length cleanText))\<rparr>))"

text \<open>A list of optional results, all present or none.\<close>

fun allSome :: "'a option list \<Rightarrow> 'a list option" where
  "allSome [] = Some []"
| "allSome (x # xs) =
     (case x of
        None \<Rightarrow> None
      | Some y \<Rightarrow> (case allSome xs of None \<Rightarrow> None | Some ys \<Rightarrow> Some (y # ys)))"

text \<open>\<open>extractCompleteParagraphs\<close>; the \<open>includeParaNumbers\<close> argument is never read.\<close>

definition extractCompleteParagraphs :: "string list \<Rightarrow> nat \<Rightarrow> extractedParagraph list option" where
  "extractCompleteParagraphs fragments maxLength =
     allSome (map (\<lambda>(i, fragment). completeParagraph maxLength i fragment)
                (zip [0 ..< length fragments] fragments))"

section \<open>The search tool\<close>

text \<open>\<open>`${doc.title} ${doc.headline || ''}`.toLowerCase()\<close>\<close>

definition docText :: "'a SearchResult_scheme \<Rightarrow> string" where
  "docText doc = toLowerCase (title doc @ '' '' @ orElse (headline doc) [])"

text \<open>\<open>calculateQueryRelevance\<close>, on exact numbers.\<close>

definition calculateQueryRelevance ::
  "'q ProcessedQuery_scheme \<Rightarrow> 'a SearchResult_scheme \<Rightarrow> real \<Rightarrow> real" where
  "calculateQueryRelevance query doc baseScore =
     (let score = baseScore;
          sectionMatches =
            filter (\<lambda>section'.
                      includesStr (docText doc) (''section '' @ section')
                      \<or> includesStr (docText doc) (section' @ '' ipc'')
                      \<or> includesStr (docText doc) (''sec. '' @ section')
                      \<or> includesStr (docText doc) (''s. '' @ section'))
              (extractedSections query);
          score =
            (if length (extractedSections query) > 0
             then (if length sectionMatches > 0
                   then score * (1 + (real (length sectionMatches)
                                      / real (length (extractedSections query))) * 0.4)
                   else score * 0.5)
             else score);
          conceptMatches = filter (\<lambda>concept. includesStr (docText doc) concept)
                             (legalConcepts query);
          score =
            (if length (legalConcepts query) > 0 \<and> length conceptMatches > 0
             then score * (1 + (real (length conceptMatches)
                                / real (length (legalConcepts query))) * 0.3)
             else score);
          queryWords =
            filter (\<lambda>w. length w > 3 \<and> w \<notin> set [''under'', ''section'', ''with''])
              (splitRe False ws1 (toLowerCase (normalizedQuery query)));
          wordMatches = filter (\<lambda>word. includesStr (docText doc) word) queryWords;
          score =
            (if length queryWords > 0
             then score * (1 + (real (length wordMatches) / real (length queryWords)) * 0.2)
             else score)
      in score)"

record ScoredCase = SearchResult +
  relevanceScore :: real
  matchedSections :: "string list"
  matchedConcepts :: "string list"

definition scoreDoc :: "'q ProcessedQuery_scheme \<Rightarrow> int \<Rightarrow> SearchResult \<Rightarrow> ScoredCase" where
  "scoreDoc processedQuery currentYear doc =
     SearchResult.extend doc
       \<lparr>relevanceScore =
          calculateQueryRelevance processedQuery doc (calculateRelevanceScore doc currentYear),
        matchedSections =
          filter (\<lambda>section'.
                    includesStr (docText doc) (''section '' @ section')
                    \<or> includesStr (docText doc) (section' @ '' ipc''))
            (extractedSections processedQuery),
        matchedConcepts =
          filter (\<lambda>concept. includesStr (docText doc) concept) (legalConcepts processedQuery)\<rparr>"

text \<open>\<open>x.toFixed(2)\<close> of an exact number: the nearest multiple of 1/100, the larger of two
  equally near ones.\<close>

definition toFixed2 :: "real \<Rightarrow> string" where
  "toFixed2 x =
     (let n = nat \<lfloor>\<bar>x\<bar> * 100 + 1 / 2\<rfloor>
      in (if x < 0 \<and> n > 0 then ''-'' else [])
         @ showNat (n div 100) @ ''.'' @ [digitChar (n mod 100 div 10), digitChar (n mod 10)])"

record formattedCase =
  fcId :: string
  fcTitle :: string
  fcCourt :: string
  fcYear :: string
  fcRelevanceScore :: string
  fcMatchedSections :: "string list"
  fcMatchedConcepts :: "string list"
  fcSummary :: string
  fcCitations :: "string list"
  fcCitedByCount :: int
  fcRelevanceNote :: "string option"

text \<open>One entry of \<open>formattedResults\<close>; the two branches of the tool differ in
  \<open>relevanceNote\<close> (the other has an empty \<open>keyPrinciples\<close> instead).\<close>

definition formatCase :: "string option \<Rightarrow> ScoredCase \<Rightarrow> formattedCase" where
  "formatCase relevanceNote doc =
     \<lparr>fcId = showInt (tid doc),
      fcTitle = title doc,
      fcCourt = (case doctype doc of
                   DTString s \<Rightarrow> s
                 | DTNumber _ \<Rightarrow> orElse (docsource doc) ''Unknown Court''),
      fcYear = orElse (map_option (splitFirst CHR ''-'') (publishdate doc)) ''Unknown'',
      fcRelevanceScore = toFixed2 (relevanceScore doc),
      fcMatchedSections = matchedSections doc,
      fcMatchedConcepts = matchedConcepts doc,
      fcSummary = (case headline doc of
                     None \<Rightarrow> ''No summary available''
                   | Some h \<Rightarrow> if h = [] then ''No summary available''
                               else substring (stripHtml h False) 0 4000 @ ''...''),
      fcCitations = (case citation doc of
                       None \<Rightarrow> []
                     | Some c \<Rightarrow> if c = [] then [] else [c]),
      fcCitedByCount = citedBy doc,
      fcRelevanceNote = relevanceNote\<rparr>"

record failureReport =
  frReason :: string
  frSuggestions :: "string list"
  frAlternativeQueries :: "string list"
  frMessage :: string

text \<open>The \<open>error\<close> object of an answer: the diagnostic of the \<open>NO_RESULTS\<close> branch, or
  the message and the suggestions of the handler's \<open>catch\<close> block.\<close>

datatype toolError =
    NoResultsError failureReport
  | HandlerError string "string list"

text \<open>The tool's answer: the fields of the JSON text it returns, without the
  \<open>searchMetadata\<close> echo of its inputs and the fixed \<open>suggestions\<close>. The note
  \<open>`Results below relevance threshold of ${relevanceThreshold}. Showing best available
  matches.`\<close> is kept as the number it prints.\<close>

record searchResponse =
  srCases :: "formattedCase list"
  srTotalResults :: nat
  srSearchStatus :: string
  srError :: "toolError option"
  srNote :: "real option"

text \<open>\<open>xs.sort((a, b) => b.relevanceScore - a.relevanceScore)\<close>: descending, stable.\<close>

definition sortByRelevance :: "ScoredCase list \<Rightarrow> ScoredCase list" where
  "sortByRelevance docs = sort_key (\<lambda>doc. - relevanceScore doc) docs"

text \<open>The part of the tool from \<open>// Filter by relevance threshold\<close> on.\<close>

definition rankAndRespond :: "ScoredCase list \<Rightarrow> real \<Rightarrow> nat \<Rightarrow> searchResponse" where
  "rankAndRespond scoredDocs relevanceThreshold limit =
     (let relevantDocs = filter (\<lambda>doc. relevanceScore doc \<ge> relevanceThreshold) scoredDocs;
          topDocs = take limit (sortByRelevance relevantDocs)
      in if length topDocs = 0 \<and> length scoredDocs > 0
         then
           let bestAvailable = take (min 5 limit) (sortByRelevance scoredDocs)
           in \<lparr>srCases = map (formatCase (Some ''Below threshold but best available matches''))
                          bestAvailable,
               srTotalResults = length bestAvailable,
               srSearchStatus = ''LOW_RELEVANCE'',
               srError = None,
               srNote = Some relevanceThreshold\<rparr>
         else
           \<lparr>srCases = map (formatCase None) topDocs,
            srTotalResults = length topDocs,
            srSearchStatus = ''SUCCESS'',
            srError = None,
            srNote = None\<rparr>)"

text \<open>The first document of every \<open>tid\<close>, in order.\<close>

fun dedupeByTid :: "SearchResult list \<Rightarrow> SearchResult list" where
  "dedupeByTid [] = []"
| "dedupeByTid (doc # docs) = doc # dedupeByTid (filter (\<lambda>d. tid d \<noteq> tid doc) docs)"

definition courtMappings :: "(string \<times> string list) list" where
  "courtMappings =
     [(''supremecourt'', [''Supreme Court'', ''apex'']),
      (''delhi'', [''Delhi High Court'', ''Delhi HC'']),
      (''bombay'', [''Bombay High Court'', ''Bombay HC'', ''Mumbai'']),
      (''madras'', [''Madras High Court'', ''Madras HC'', ''Chennai'']),
      (''calcutta'', [''Calcutta High Court'', ''Calcutta HC'', ''Kolkata''])]"

text \<open>\<open>(doc.docsource || doc.doctype || '').toString()\<close>\<close>

definition docCourt :: "'a SearchResult_scheme \<Rightarrow> string" where
  "docCourt doc =
     (case docsource doc of
        Some s \<Rightarrow> if s \<noteq> [] then s
                  else (case doctype doc of
                          DTString t \<Rightarrow> t
                        | DTNumber n \<Rightarrow> if n = 0 then [] else showInt n)
      | None \<Rightarrow> (case doctype doc of
                   DTString t \<Rightarrow> t
                 | DTNumber n \<Rightarrow> if n = 0 then [] else showInt n))"

definition courtFilter :: "string option \<Rightarrow> SearchResult list \<Rightarrow> SearchResult list" where
  "courtFilter courtLevel allDocs =
     (case courtLevel of
        None \<Rightarrow> allDocs
      | Some level \<Rightarrow>
          if level = [] \<or> level = ''all'' then allDocs
          else
            let acceptedCourts = (case map_of courtMappings level of
                                    None \<Rightarrow> []
                                  | Some courts \<Rightarrow> courts)
            in filter (\<lambda>doc. list_ex (\<lambda>court. includesStr (toLowerCase (docCourt doc))
                                                  (toLowerCase court))
                                acceptedCourts)
                 allDocs)"

text \<open>
  What one search delivers to the handler: an answer with a \<open>docs\<close> array (a search that
  throws is caught and becomes \<open>{ docs: [], error }\<close>), an answer without one, or
  \<open>null\<close>/\<open>undefined\<close> (what \<open>search\<close> resolves to after three rate-limited
  attempts), on which \<open>result.docs\<close> throws a \<open>TypeError\<close>.
\<close>

datatype searchAnswer =
    Docs "SearchResult list"
  | NoDocsArray
  | Nullish

fun docsOf :: "searchAnswer \<Rightarrow> SearchResult list" where
  "docsOf (Docs docs) = docs"
| "docsOf NoDocsArray = []"
| "docsOf Nullish = []"

text \<open>The message of that \<open>TypeError\<close>, as V8 words it.\<close>

definition typeErrorMessage :: string where
  "typeErrorMessage = ''Cannot read properties of undefined (reading '' @ [CHR 0x27] @ ''docs''
     @ [CHR 0x27] @ '')''"

text \<open>The \<open>searchVariants\<close> of the handler: the search strings it sends.\<close>

definition variantsSearched :: "'q ProcessedQuery_scheme \<Rightarrow> string \<Rightarrow> string list" where
  "variantsSearched processedQuery query =
     (if length (searchVariants processedQuery) > 0
      then take 5 (searchVariants processedQuery)
      else [query])"

text \<open>
  \<open>search_legal_precedents\<close>. \<open>upstream\<close> gives, for a search string, what the search for
  it delivers. \<open>maxResults\<close> is the optional argument, \<open>maxSearchResults\<close> the configured
  default. \<open>None\<close> when preprocessing does not return.
\<close>

definition searchLegalPrecedents ::
  "(string \<Rightarrow> searchAnswer) \<Rightarrow> nat \<Rightarrow> int \<Rightarrow> string \<Rightarrow> string option \<Rightarrow> nat option \<Rightarrow> real
     \<Rightarrow> searchResponse option" where
  "searchLegalPrecedents upstream maxSearchResults currentYear query courtLevel maxResults
       relevanceThreshold =
     (case preprocessQuery query of
        None \<Rightarrow> None
      | Some processedQuery \<Rightarrow>
          let limit = (case maxResults of
                         None \<Rightarrow> maxSearchResults
                       | Some n \<Rightarrow> if n = 0 then maxSearchResults else n);
              results = map upstream (variantsSearched processedQuery query)
          in if Nullish \<in> set results
             then
               Some \<lparr>srCases = [], srTotalResults = 0, srSearchStatus = ''ERROR'',
                      srError = Some (HandlerError (formatError typeErrorMessage ''search'')
                                        [''Check your internet connection'',
                                         ''Verify your API key is valid'',
                                         ''Try simpler search terms'',
                                         ''Remove special characters from query'']),
                      srNote = None\<rparr>
             else
               let allDocs = dedupeByTid (concat (map docsOf results))
               in if length allDocs = 0
                  then
                    let failureAnalysis = analyzeSearchFailure query processedQuery
                    in Some \<lparr>srCases = [], srTotalResults = 0, srSearchStatus = ''NO_RESULTS'',
                              srError = Some (NoResultsError
                                \<lparr>frReason = reason failureAnalysis,
                                 frSuggestions = faSuggestions failureAnalysis,
                                 frAlternativeQueries = alternativeQueries failureAnalysis,
                                 frMessage = ''No cases found. Try the alternative queries suggested below.''\<rparr>),
                              srNote = None\<rparr>
                  else
                    Some (rankAndRespond
                            (map (scoreDoc processedQuery currentYear)
                               (courtFilter courtLevel allDocs))
                            relevanceThreshold limit))"

section \<open>Citations\<close>

text \<open>What \<open>extractCaseNumber\<close> reads of the object it is given.\<close>

record caseMetadata =
  mCaseno :: "string option"
  mRelurl :: "string option"
  mTitle :: "string option"
  mTid :: "int option"

abbreviation dashOrSpace :: re where
  "dashOrSpace \<equiv> Star (Atom (CUnion [CSpace, CChar (CHR ''-'')]))"

definition titleCasePatterns :: "(bool \<times> re) list" where
  "titleCasePatterns =
     [(True, seqs [lit ''Case No'', Star (Atom (CUnion [CChar (CHR ''.''), CSpace, CChar (CHR '':'')])),
                   Group 1 (seqs [Plus upperAZ, dashOrSpace, digits1, dashOrSpace,
                                  Alt (lit ''of'') (lit ''/''), ws0, times 4 (Atom CDigit)])]),
      (False, seqs [lit ''('',
                    Group 1 (seqs [Plus upperAZ, dashOrSpace, digits1, dashOrSpace,
                                   Alt (lit ''of'') (lit ''/''), ws0, times 4 (Atom CDigit)]),
                    lit '')'']),
      (True, seqs [lit ''No'', Star (Atom (CUnion [CChar (CHR ''.''), CSpace, CChar (CHR '':'')])),
                   Group 1 (seqs [digits1, dashOrSpace, Alt (lit ''of'') (lit ''/''), ws0,
                                  times 4 (Atom CDigit)])])]"

text \<open>The first pattern that matches the title gives its first capture.\<close>

fun firstTitleMatch :: "(bool \<times> re) list \<Rightarrow> string \<Rightarrow> string option" where
  "firstTitleMatch [] t = None"
| "firstTitleMatch ((ci, r) # patterns) t =
     (case matchRe ci r t of
        Some m \<Rightarrow> capture m 1
      | None \<Rightarrow> firstTitleMatch patterns t)"

text \<open>\<open>extractCaseNumber\<close>; \<open>currentYear\<close> stands for \<open>new Date().getFullYear()\<close>. A field
  that is \<open>undefined\<close>, \<open>null\<close> or empty is skipped.\<close>

definition extractCaseNumber :: "caseMetadata \<Rightarrow> int \<Rightarrow> string" where
  "extractCaseNumber metadata currentYear =
     (let fromTid = (case mTid metadata of
                       None \<Rightarrow> ''[No. '' @ showInt currentYear @ '']''
                     | Some t \<Rightarrow> showInt t);
          fromTitle = (case orOpt (mTitle metadata) None of
                         None \<Rightarrow> fromTid
                       | Some t \<Rightarrow> (case firstTitleMatch titleCasePatterns t of
                                     None \<Rightarrow> fromTid
                                   | Some g \<Rightarrow> g))
      in case orOpt (mCaseno metadata) None of
           Some c \<Rightarrow> c
         | None \<Rightarrow>
             (case orOpt (mRelurl metadata) None of
                None \<Rightarrow> fromTitle
              | Some url \<Rightarrow>
                  let lastPart = last (splitChar CHR ''/'' [] url)
                  in if lastPart \<noteq> [] \<and> test False upperAZ lastPart
                        \<and> \<not> includesStr lastPart ''.''
                     then lastPart
                     else (case matchRe True
                                  (Group 1 (seqs [Plus upperAZ, dashOrSpace, digits1, dashOrSpace,
                                                  Opt (Alt (lit ''of'') (lit ''/'')), ws0,
                                                  times 4 (Atom CDigit)]))
                                  url of
                             Some m \<Rightarrow> (case capture m 1 of None \<Rightarrow> fromTitle | Some g \<Rightarrow> g)
                           | None \<Rightarrow> fromTitle)))"

text \<open>\<open>CITATION_PATTERNS\<close>, in the order of the object literal.\<close>

definition yearPrefix :: re where
  "yearPrefix = Seq (Alt (lit ''19'') (lit ''20'')) (times 2 (Atom CDigit))"

definition CITATION_PATTERNS :: "(string \<times> re) list" where
  "CITATION_PATTERNS =
     [(''AIR'',
       seqs [Bol, Opt (lit ''(''), Alt (lit ''19'') (lit ''20''), times 2 (Atom CDigit),
             Opt (Atom (CChar (CHR '')''))), ws1, lit ''AIR'', ws1,
             Opt (seqs [upperAZ, Star lowerAZ, Opt (seqs [ws1, upperAZ, Star lowerAZ]), ws1]),
             digits1, Eol]),
      (''SCC'',
       seqs [Bol, Opt (lit ''(''), Alt (lit ''19'') (lit ''20''), times 2 (Atom CDigit),
             Opt (Atom (CChar (CHR '')''))), ws1, Opt (seqs [digits1, ws1]), lit ''SCC'', ws1,
             digits1, Eol]),
      (''SCC_OnLine'',
       seqs [Bol, Alt (lit ''19'') (lit ''20''), times 2 (Atom CDigit), ws1, lit ''SCC'', ws1,
             lit ''OnLine'', ws1, upperAZ, Plus lowerAZ, ws1, digits1, Eol]),
      (''SCCOnLine'',
       seqs [Bol, Alt (lit ''19'') (lit ''20''), times 2 (Atom CDigit), ws1, lit ''SCCOnLine'',
             ws1, upperAZ, Plus lowerAZ, ws1, digits1, Eol]),
      (''Neutral'',
       seqs [Bol, Alt (lit ''19'') (lit ''20''), times 2 (Atom CDigit), ws1, lit ''IN'',
             Seq (times 2 upperAZ) (upto 2 upperAZ), ws1, digits1, Eol])]"

record citationValidation =
  cvIsValid :: bool
  cvFormat :: "string option"
  cvSuggestion :: "string option"

text \<open>\<open>validateCitation\<close>\<close>

definition validateCitation :: "string \<Rightarrow> citationValidation" where
  "validateCitation citation' =
     (let cleaned = trim citation' in
      case filter (\<lambda>(format, pattern). test False pattern cleaned) CITATION_PATTERNS of
        (format, pattern) # _ \<Rightarrow>
          \<lparr>cvIsValid = True, cvFormat = Some format, cvSuggestion = None\<rparr>
      | [] \<Rightarrow>
          let suggested = replaceAll False (seqs [WordB, lit ''Dell'', WordB]) ''Del'' cleaned;
              suggested = replaceAll False (seqs [WordB, lit ''Supreme Court'', WordB]) ''SC''
                            suggested;
              suggested = replaceAll False (seqs [WordB, lit ''High Court'', WordB]) ''HC''
                            suggested
          in \<lparr>cvIsValid = False, cvFormat = None,
              cvSuggestion = (if suggested \<noteq> cleaned then Some suggested else None)\<rparr>)"

text \<open>
  \<open>CitationElements\<close>. \<open>formatCitation\<close> hands the object to \<open>extractCaseNumber\<close>, which
  reads its \<open>caseno\<close>, \<open>relurl\<close>, \<open>title\<close> and \<open>tid\<close>: properties the interface does not
  declare and an object built as \<open>CitationElements\<close> does not have; they are kept in
  \<open>undeclared\<close> (all \<open>None\<close> for such an object).
\<close>

record CitationElements =
  parties :: string
  court :: string
  year :: string
  caseNumber :: "string option"
  judges :: "string list option"
  reporterCitations :: "string list option"
  paragraph' :: "string option"
  undeclared :: caseMetadata

definition noMetadata :: caseMetadata where
  "noMetadata = \<lparr>mCaseno = None, mRelurl = None, mTitle = None, mTid = None\<rparr>"

record formattedCitation =
  full :: string
  short :: string
  inText :: string
  footnote :: string
  bibliography :: string
  pinpoint :: "string option"

text \<open>\<open>s.split(' v.')[0]\<close>: the text before the first \<open> v.\<close>.\<close>

fun beforeVersus :: "string \<Rightarrow> string" where
  "beforeVersus [] = []"
| "beforeVersus (c # cs) = (if startsWith (c # cs) '' v.'' then [] else c # beforeVersus cs)"

definition formatCitation :: "CitationElements \<Rightarrow> string \<Rightarrow> int \<Rightarrow> formattedCitation" where
  "formatCitation elements style currentYear =
     (let caseNumber' = extractCaseNumber (undeclared elements) currentYear;
          courtCode = (if includesStr (court elements) ''Supreme'' then ''SC''
                       else toUpperCase (substring (court elements) 0 3));
          courtAbbr = (if includesStr (court elements) ''Supreme'' then ''SC''
                       else if includesStr (court elements) ''Delhi'' then ''Del''
                       else if includesStr (court elements) ''Bombay'' then ''Bom''
                       else if includesStr (court elements) ''Madras'' then ''Mad''
                       else if includesStr (court elements) ''Calcutta'' then ''Cal''
                       else ''HC'');
          fullShort =
            (if style = ''AIR'' then
               (year elements @ '' AIR '' @ court elements @ '' '' @ caseNumber',
                year elements @ '' AIR '' @ court elements)
             else if style = ''SCC'' then
               (parties elements @ '' ('' @ year elements @ '') SCC '' @ caseNumber',
                beforeVersus (parties elements) @ '' ('' @ year elements @ '') SCC'')
             else if style = ''Neutral'' then
               (year elements @ '' IN'' @ courtCode @ '' '' @ caseNumber',
                year elements @ '' IN'' @ courtCode)
             else if style = ''SCC OnLine'' then
               (parties elements @ '', '' @ year elements @ '' SCC OnLine '' @ courtAbbr
                  @ '' '' @ caseNumber',
                year elements @ '' SCC OnLine '' @ courtAbbr)
             else
               (parties elements @ '' ('' @ year elements @ '') '' @ court elements,
                beforeVersus (parties elements) @ '' ('' @ year elements @ '')''))
      in \<lparr>full = fst fullShort,
          short = snd fullShort,
          inText = ''('' @ beforeVersus (parties elements) @ '', '' @ year elements @ '')'',
          footnote = fst fullShort @ '' ('' @ court elements @ '')'',
          bibliography = parties elements @ '' ('' @ year elements @ ''). '' @ court elements
                         @ ''. '' @ fst fullShort @ ''.'',
          pinpoint = (case orOpt (paragraph' elements) None of
                        None \<Rightarrow> None
                      | Some para \<Rightarrow> Some (fst fullShort @ '', '' @ [CHR 0xB6] @ '' '' @ para))\<rparr>)"

section \<open>Example documents\<close>

text \<open>A document whose court label names a district bench of a high court, published long
  ago and never cited.\<close>

definition districtBenchDoc :: SearchResult where
  "districtBenchDoc =
     \<lparr>tid = 1, title = ''A v. B'', doctype = DTString ''High Court - District Bench'',
      publishdate = Some ''2000-05-17'', headline = None, numcites = None,
      numcitedby = None, docsource = None, author = None, citation = None,
      caseno = None, relurl = None\<rparr>"

definition apexDoc :: SearchResult where
  "apexDoc =
     \<lparr>tid = 2, title = ''State v. Ram'', doctype = DTString ''Supreme Court of India'',
      publishdate = Some ''2025-01-02'', headline = None, numcites = None,
      numcitedby = Some 25, docsource = None, author = None, citation = None,
      caseno = None, relurl = None\<rparr>"


section \<open>Notions used in the statements about matching and truncation\<close>

text \<open>The text a matcher state still has to read.\<close>

abbreviation unread :: "mstate \<Rightarrow> string" where
  "unread st \<equiv> fst (snd st)"

text \<open>A text starts with a character of one of the given classes.\<close>

definition firstOk :: "bool \<Rightarrow> cclass list \<Rightarrow> string \<Rightarrow> bool" where
  "firstOk ci ks s = (case s of [] \<Rightarrow> False | x # xs \<Rightarrow> list_ex (\<lambda>k. cmatch ci k x) ks)"

text \<open>A text none of whose characters can start a match of the expression.\<close>

definition foreign :: "bool \<Rightarrow> re \<Rightarrow> string \<Rightarrow> bool" where
  "foreign ci r s = (\<not> nullable r \<and> (\<forall>x \<in> set s. \<not> list_ex (\<lambda>k. cmatch ci k x) (firsts r)))"

text \<open>Indices of matches: inside the text, at a character of one of the first classes.\<close>

definition atFirst :: "re list \<Rightarrow> string \<Rightarrow> nat \<Rightarrow> bool" where
  "atFirst patterns s i = (i < length s \<and> list_ex (\<lambda>k. cmatch False k (s ! i)) (concat (map firsts patterns)))"

text \<open>What the scans keep: the start value, or a position below the bound that belongs to
  an index of the lists.\<close>

definition kept :: "(nat \<Rightarrow> bool) \<Rightarrow> real \<Rightarrow> real \<Rightarrow> real \<Rightarrow> bool" where
  "kept P offset bound best =
     (best = - 1 \<or> (best < bound \<and> (\<exists>i. P i \<and> best = offset + real i + 1)))"

text \<open>The characters the sentence-ending and fallback patterns start with.\<close>

definition punctuation :: "char set" where
  "punctuation = set ''.?!;:'' \<union> {CHR 0x0A}"

section \<open>Relevance score: the factors\<close>

lemmas court_eval =
  identifyCourt_def courtLabel_def toLowerCase_def code_def orElse_def highCourts_def

lemmas score_eval =
  calculateRelevanceScore_def publishYear_def splitFirst_def parseInt_def trimStart_def
  isSpace_def digitValue_def citedBy_def

text \<open>
  C4, as stated, fails: the label \<open>High Court - District Bench\<close> contains \<open>district\<close>, the
  document is old (no recency factor) and uncited (no citation factor), and yet its score
  is 1.2, not 1.0: the second-tier test comes first.
\<close>

theorem C4_district_label_counterexample:
  "includesStr (toLowerCase (courtLabel districtBenchDoc)) ''district''
   \<and> publishYear districtBenchDoc = Some 2000
   \<and> citedBy districtBenchDoc = 0
   \<and> calculateRelevanceScore districtBenchDoc 2026 = 1.2
   \<and> calculateRelevanceScore districtBenchDoc 2026 \<noteq> 1.0 * 1.0"
  by (simp add: districtBenchDoc_def court_eval score_eval)

text \<open>
  C4, amended: the relevance score is 1.0 times a court-hierarchy factor, times 1.3 when
  the publish year is no more than 2 years before the current year, times a citation
  factor that is 1.4 above 20 citations, else 1.2 above 10, else 1 (never both). The
  hierarchy factor is 1.5 for every label containing \<open>supreme\<close> or \<open>apex\<close> in any case; it is
  1.0 for every label containing \<open>district\<close> or \<open>sessions\<close> that contains none of \<open>supreme\<close>,
  \<open>apex\<close>, \<open>high court\<close>, \<open>hc\<close>; it is 1.2 for courts identified as high courts, 0.9 for
  tribunals and 1.0 for every other label.
\<close>

theorem C4_relevance_score_factors:
  "calculateRelevanceScore doc currentYear =
     1.0
     * (if identifyCourt doc = ''supreme'' then 1.5
        else if identifyCourt doc = ''high'' then 1.2
        else if identifyCourt doc = ''tribunal'' then 0.9
        else 1.0)
     * (if \<exists>year. publishYear doc = Some year \<and> currentYear - year \<le> 2 then 1.3 else 1)
     * (if citedBy doc > 20 then 1.4 else if citedBy doc > 10 then 1.2 else 1)
   \<and> (includesStr (toLowerCase (courtLabel doc)) ''supreme''
        \<or> includesStr (toLowerCase (courtLabel doc)) ''apex''
        \<longrightarrow> identifyCourt doc = ''supreme'')
   \<and> ((includesStr (toLowerCase (courtLabel doc)) ''district''
         \<or> includesStr (toLowerCase (courtLabel doc)) ''sessions'')
        \<and> \<not> includesStr (toLowerCase (courtLabel doc)) ''supreme''
        \<and> \<not> includesStr (toLowerCase (courtLabel doc)) ''apex''
        \<and> \<not> includesStr (toLowerCase (courtLabel doc)) ''high court''
        \<and> \<not> includesStr (toLowerCase (courtLabel doc)) ''hc''
        \<longrightarrow> identifyCourt doc = ''district'')"
proof -
  have factors: "calculateRelevanceScore doc currentYear =
     1.0
     * (if identifyCourt doc = ''supreme'' then 1.5
        else if identifyCourt doc = ''high'' then 1.2
        else if identifyCourt doc = ''tribunal'' then 0.9
        else 1.0)
     * (if \<exists>year. publishYear doc = Some year \<and> currentYear - year \<le> 2 then 1.3 else 1)
     * (if citedBy doc > 20 then 1.4 else if citedBy doc > 10 then 1.2 else 1)"
    by (cases "publishYear doc") (simp_all add: calculateRelevanceScore_def Let_def)
  have apex: "includesStr (toLowerCase (courtLabel doc)) ''supreme''
        \<or> includesStr (toLowerCase (courtLabel doc)) ''apex''
        \<longrightarrow> identifyCourt doc = ''supreme''"
    unfolding identifyCourt_def Let_def by simp
  have district: "(includesStr (toLowerCase (courtLabel doc)) ''district''
         \<or> includesStr (toLowerCase (courtLabel doc)) ''sessions'')
        \<and> \<not> includesStr (toLowerCase (courtLabel doc)) ''supreme''
        \<and> \<not> includesStr (toLowerCase (courtLabel doc)) ''apex''
        \<and> \<not> includesStr (toLowerCase (courtLabel doc)) ''high court''
        \<and> \<not> includesStr (toLowerCase (courtLabel doc)) ''hc''
        \<longrightarrow> identifyCourt doc = ''district''"
    unfolding identifyCourt_def Let_def by simp
  from factors apex district show ?thesis by blast
qed

theorem C4_relevance_score_factors_witness:
  "includesStr (toLowerCase (courtLabel apexDoc)) ''supreme''
   \<and> identifyCourt apexDoc = ''supreme''
   \<and> publishYear apexDoc = Some 2025
   \<and> citedBy apexDoc = 25
   \<and> calculateRelevanceScore apexDoc 2026 = 1.0 * 1.5 * 1.3 * 1.4"
proof -
  have lbl: "includesStr (toLowerCase (courtLabel apexDoc)) ''supreme''"
    by (simp add: apexDoc_def court_eval)
  have yr: "publishYear apexDoc = Some 2025"
    by (simp add: apexDoc_def court_eval score_eval)
  have cb: "citedBy apexDoc = 25"
    by (simp add: apexDoc_def citedBy_def)
  from C4_relevance_score_factors [of apexDoc 2026] lbl
  have court: "identifyCourt apexDoc = ''supreme''" by blast
  from C4_relevance_score_factors [of apexDoc 2026]
  have "calculateRelevanceScore apexDoc 2026 = 1.0 * 1.5 * 1.3 * 1.4"
    by (simp add: court yr cb)
  with lbl court yr cb show ?thesis by blast
qed

section \<open>Retries and failure classes\<close>

lemmas retry_eval =
  throttledRequest_def retryLoop.simps requestDelay_def ok_def onCatch_def
  showNat.simps digitChar_def

text \<open>
  C5 at its failing inputs. When every attempt is answered with 429, \<open>throttledRequest\<close>
  waits 1000, 2000 and 4000 ms after the three fetches and then resolves to \<open>undefined\<close>:
  no error is raised, and \<open>search\<close> delivers \<open>undefined\<close> as a result. When the first answer
  is a 500, the request is not failed at once: it is retried after 1000 ms and delivers
  the second answer.
\<close>

theorem C5_exhausted_rate_limit_resolves_undefined:
  "throttledRequest alwaysRateLimited 0 = (Inr Undefined, 3, [100, 1000, 2000, 4000])
   \<and> fst (clientRequest ''search'' (newClient 60 True) alwaysRateLimited 0 0 7100 searchKey)
       = Inr Undefined
   \<and> throttledRequest failsOnceThenOk 0 = (Inr (Obj [(''docs'', Arr [])]), 2, [100, 1000])"
  by (simp add: retry_eval alwaysRateLimited_def failsOnceThenOk_def clientRequest_def
        getFromCache_def newClient_def)

section \<open>Cache\<close>

text \<open>
  C3, as stated, fails: with a cached value that is falsy (here \<open>null\<close>, inserted at time
  0 and read at 1000 ms, well within the 60 minutes), the lookup finds the entry, but
  \<open>if (cached)\<close> rejects it and a fetch is performed; the same holds in \<open>api-client.ts\<close>.
\<close>

theorem C3_falsy_payload_counterexample:
  "fst (getFromCache (clientHolding Null) 1000 searchKey) = Some Null
   \<and> snd (snd (clientRequest ''search'' (clientHolding Null) alwaysOk 0 1000 1200 searchKey)) = 1
   \<and> fst (clientRequest ''search'' (clientHolding Null) alwaysOk 0 1000 1200 searchKey)
       = Inr (Obj [(''docs'', Arr [])])
   \<and> snd (snd (makeRequest (apiClientHolding Null) alwaysOk 0 1000 1200 searchKey)) = 1"
  by (simp add: clientHolding_def apiClientHolding_def setCache_def setCachedData_def
        newClient_def getFromCache_def getCachedData_def clientRequest_def makeRequest_def
        alwaysOk_def retry_eval)

text \<open>
  C3, amended: with caching enabled and an entry for the key holding a truthy value (any
  JSON object or array, a non-empty string, a non-zero number, \<open>true\<close>): a request whose
  read time is within the time-out of the insertion returns the cached value, leaves the
  client as it is and performs no fetch; once the age exceeds the time-out the lookup
  answers \<open>null\<close> and deletes the entry, and the request, when the upstream answers the
  fetch with a successful response, performs exactly one fetch, returns the fresh body and
  stores it under the key with the time of storing. Both clients (\<open>index.ts\<close>,
  \<open>api-client.ts\<close>) behave so.
\<close>

theorem C3_cache_hit_and_refresh:
  "(enableCaching c \<and> cache c key = Some (d, ts) \<and> truthy d \<and> now - ts \<le> cacheTimeout c
      \<longrightarrow> clientRequest context' c net calls now tStore key = (Inr d, c, 0))
   \<and> (enableCaching c \<and> cache c key = Some (d, ts) \<and> now - ts > cacheTimeout c
      \<longrightarrow> getFromCache c now key = (None, c\<lparr>cache := (cache c)(key := None)\<rparr>)
          \<and> (ok status \<and> net calls = Response status statusText (Inr fresh)
               \<longrightarrow> clientRequest context' c net calls now tStore key
                     = (Inr fresh, c\<lparr>cache := (cache c)(key \<mapsto> (fresh, tStore))\<rparr>, 1)))
   \<and> (configEnableCaching a \<and> apiCache a key = Some (d, ts) \<and> truthy d
        \<and> configCacheTimeout a = Some minutes \<and> minutes \<noteq> 0
        \<and> now - ts \<le> minutes * 60 * 1000
      \<longrightarrow> makeRequest a net calls now tStore key = (Inr d, a, 0))
   \<and> (configEnableCaching a \<and> apiCache a key = Some (d, ts)
        \<and> configCacheTimeout a = Some minutes \<and> minutes \<noteq> 0
        \<and> now - ts > minutes * 60 * 1000
      \<longrightarrow> getCachedData a now key = (None, a\<lparr>apiCache := (apiCache a)(key := None)\<rparr>)
          \<and> (ok status \<and> net calls = Response status statusText (Inr fresh)
               \<longrightarrow> makeRequest a net calls now tStore key
                     = (Inr fresh, a\<lparr>apiCache := (apiCache a)(key \<mapsto> (fresh, tStore))\<rparr>, 1)))"
proof (intro conjI impI)
  assume "enableCaching c \<and> cache c key = Some (d, ts) \<and> truthy d \<and> now - ts \<le> cacheTimeout c"
  then show "clientRequest context' c net calls now tStore key = (Inr d, c, 0)"
    by (simp add: clientRequest_def getFromCache_def)
next
  assume "enableCaching c \<and> cache c key = Some (d, ts) \<and> now - ts > cacheTimeout c"
  then show "getFromCache c now key = (None, c\<lparr>cache := (cache c)(key := None)\<rparr>)"
    by (simp add: getFromCache_def)
next
  assume h: "enableCaching c \<and> cache c key = Some (d, ts) \<and> now - ts > cacheTimeout c"
    and n: "ok status \<and> net calls = Response status statusText (Inr fresh)"
  from n have s: "status \<noteq> 429" by (auto simp: ok_def)
  from n s have "throttledRequest net calls = (Inr fresh, 1, [requestDelay])"
    by (simp add: throttledRequest_def retryLoop.simps [of net 3 0])
  with h show "clientRequest context' c net calls now tStore key
        = (Inr fresh, c\<lparr>cache := (cache c)(key \<mapsto> (fresh, tStore))\<rparr>, 1)"
    by (simp add: clientRequest_def getFromCache_def setCache_def)
next
  assume "configEnableCaching a \<and> apiCache a key = Some (d, ts) \<and> truthy d
        \<and> configCacheTimeout a = Some minutes \<and> minutes \<noteq> 0
        \<and> now - ts \<le> minutes * 60 * 1000"
  then show "makeRequest a net calls now tStore key = (Inr d, a, 0)"
    by (simp add: makeRequest_def getCachedData_def)
next
  assume "configEnableCaching a \<and> apiCache a key = Some (d, ts)
        \<and> configCacheTimeout a = Some minutes \<and> minutes \<noteq> 0
        \<and> now - ts > minutes * 60 * 1000"
  then show "getCachedData a now key = (None, a\<lparr>apiCache := (apiCache a)(key := None)\<rparr>)"
    by (simp add: getCachedData_def)
next
  assume h: "configEnableCaching a \<and> apiCache a key = Some (d, ts)
        \<and> configCacheTimeout a = Some minutes \<and> minutes \<noteq> 0
        \<and> now - ts > minutes * 60 * 1000"
    and n: "ok status \<and> net calls = Response status statusText (Inr fresh)"
  then show "makeRequest a net calls now tStore key
        = (Inr fresh, a\<lparr>apiCache := (apiCache a)(key \<mapsto> (fresh, tStore))\<rparr>, 1)"
    by (simp add: makeRequest_def getCachedData_def setCachedData_def)
qed

theorem C3_cache_hit_and_refresh_witness:
  "clientRequest ''search'' (clientHolding (Obj [])) alwaysRateLimited 0 3600000 3600200 searchKey
     = (Inr (Obj []), clientHolding (Obj []), 0)
   \<and> clientRequest ''search'' (clientHolding (Obj [])) alwaysOk 0 3600001 3600200 searchKey
     = (Inr (Obj [(''docs'', Arr [])]),
        (clientHolding (Obj []))
          \<lparr>cache := (cache (clientHolding (Obj [])))
                      (searchKey \<mapsto> (Obj [(''docs'', Arr [])], 3600200))\<rparr>, 1)
   \<and> makeRequest (apiClientHolding (Obj [])) alwaysRateLimited 0 3600000 3600200 searchKey
     = (Inr (Obj []), apiClientHolding (Obj []), 0)
   \<and> makeRequest (apiClientHolding (Obj [])) alwaysOk 0 3600001 3600200 searchKey
     = (Inr (Obj [(''docs'', Arr [])]),
        (apiClientHolding (Obj []))
          \<lparr>apiCache := (apiCache (apiClientHolding (Obj [])))
                         (searchKey \<mapsto> (Obj [(''docs'', Arr [])], 3600200))\<rparr>, 1)"
proof -
  have c: "enableCaching (clientHolding (Obj []))
           \<and> cache (clientHolding (Obj [])) searchKey = Some (Obj [], 0)
           \<and> cacheTimeout (clientHolding (Obj [])) = 3600000"
    by (simp add: clientHolding_def setCache_def newClient_def)
  have a: "configEnableCaching (apiClientHolding (Obj []))
           \<and> apiCache (apiClientHolding (Obj [])) searchKey = Some (Obj [], 0)
           \<and> configCacheTimeout (apiClientHolding (Obj [])) = Some 60"
    by (simp add: apiClientHolding_def setCachedData_def)
  have n: "ok 200 \<and> alwaysOk 0 = Response 200 ''OK'' (Inr (Obj [(''docs'', Arr [])]))"
    by (simp add: ok_def alwaysOk_def)
  have hit: "clientRequest ''search'' (clientHolding (Obj [])) alwaysRateLimited 0 3600000 3600200
               searchKey = (Inr (Obj []), clientHolding (Obj []), 0)"
    using c C3_cache_hit_and_refresh
      [where c = "clientHolding (Obj [])" and key = searchKey and d = "Obj []" and ts = 0
         and now = 3600000 and context' = "''search''" and net = alwaysRateLimited
         and calls = 0 and tStore = 3600200]
    by simp
  have miss: "clientRequest ''search'' (clientHolding (Obj [])) alwaysOk 0 3600001 3600200 searchKey
     = (Inr (Obj [(''docs'', Arr [])]),
        (clientHolding (Obj []))
          \<lparr>cache := (cache (clientHolding (Obj [])))
                      (searchKey \<mapsto> (Obj [(''docs'', Arr [])], 3600200))\<rparr>, 1)"
    using c n C3_cache_hit_and_refresh
      [where c = "clientHolding (Obj [])" and key = searchKey and d = "Obj []" and ts = 0
         and now = 3600001 and context' = "''search''" and net = alwaysOk
         and calls = 0 and tStore = 3600200 and status = 200 and statusText = "''OK''"
         and fresh = "Obj [(''docs'', Arr [])]"]
    by simp
  have ahit: "makeRequest (apiClientHolding (Obj [])) alwaysRateLimited 0 3600000 3600200 searchKey
     = (Inr (Obj []), apiClientHolding (Obj []), 0)"
    using a C3_cache_hit_and_refresh
      [where a = "apiClientHolding (Obj [])" and key = searchKey and d = "Obj []" and ts = 0
         and now = 3600000 and net = alwaysRateLimited and minutes = 60
         and calls = 0 and tStore = 3600200]
    by simp
  have amiss: "makeRequest (apiClientHolding (Obj [])) alwaysOk 0 3600001 3600200 searchKey
     = (Inr (Obj [(''docs'', Arr [])]),
        (apiClientHolding (Obj []))
          \<lparr>apiCache := (apiCache (apiClientHolding (Obj [])))
                         (searchKey \<mapsto> (Obj [(''docs'', Arr [])], 3600200))\<rparr>, 1)"
    using a n C3_cache_hit_and_refresh
      [where a = "apiClientHolding (Obj [])" and key = searchKey and d = "Obj []" and ts = 0
         and now = 3600001 and net = alwaysOk and minutes = 60
         and calls = 0 and tStore = 3600200 and status = 200 and statusText = "''OK''"
         and fresh = "Obj [(''docs'', Arr [])]"]
    by simp
  from hit miss ahit amiss show ?thesis by blast
qed

section \<open>Matching a literal\<close>








section \<open>Legal weight: the order of the labels\<close>














section \<open>Section 823\<close>

lemmas char_eval = code_def isSpace_def isDigit_def isUpper_def isLower_def isWordChar_def
  inRange_def isWordOpt_def headOpt_def

lemma times_numeral: "times (numeral k) r = Seq r (times (pred_numeral k) r)"
  by (simp add: numeral_eq_Suc)

lemma upto_numeral: "upto (numeral k) r = Opt (Seq r (upto (pred_numeral k) r))"
  by (simp add: numeral_eq_Suc)

lemmas rx_numeral = times_numeral upto_numeral

lemma sections_823:
  "capturesOfAll sectionPatterns ''Section 823 IPC bail'' = Some [''823'', ''823'']"
  by (simp add: sectionPatterns_def execAll_def execLoop.simps capture_def char_eval rx_numeral)

lemma concepts_823:
  "capturesOfAll conceptPatterns ''Section 823 IPC bail'' = Some [''bail'']"
  by (simp add: conceptPatterns_def execAll_def execLoop.simps capture_def char_eval)

lemma validate_823:
  "validateSection ''823'' ''IPC'' =
     \<lparr>isValid = False, suggestion = Some ''Section 823 appears invalid for IPC'',
      nearestValid = Some [''323'', ''423'', ''23'']\<rparr>"
  by (simp add: validateSection_def sectionNumberPattern_def matchRe_def capture_def char_eval
        parseInt_def trimStart_def digitValue_def VALID_IPC_SECTIONS_def inSectionRange_def
        commonMistakes_def showInt_def showNat.simps digitChar_def)

lemma codeType_823: "detectCodeType ''Section 823 IPC bail'' = ''IPC''"
  by (simp add: detectCodeType_def toLowerCase_def code_def)

lemma sectionsOf_823: "sectionsOf ''823'' = [''823'']"
  by (simp add: sectionsOf_def splitRe_def splitFrom.simps trim_def char_eval)

text \<open>
  C9: for the query \<open>Section 823 IPC bail\<close> preprocessing extracts section 823 (twice:
  the first and the fourth pattern both find it), takes the code to be the Indian Penal
  Code with its range 1-511, flags the section invalid, and suggests 323 first, from the
  table of known typing mistakes.
\<close>

theorem C9_section_823_flagged:
  "map_option extractedSections (preprocessQuery ''Section 823 IPC bail'') = Some [''823'', ''823'']
   \<and> detectCodeType ''Section 823 IPC bail'' = ''IPC''
   \<and> VALID_IPC_SECTIONS = \<lparr>rmin = 1, rmax = 511\<rparr>
   \<and> map_option validatedSections (preprocessQuery ''Section 823 IPC bail'') =
       Some [\<lparr>original = ''823'', validated = ''323'', vsIsValid = False,
               suggestions = Some [''323'', ''423'', ''23'']\<rparr>,
             \<lparr>original = ''823'', validated = ''323'', vsIsValid = False,
               suggestions = Some [''323'', ''423'', ''23'']\<rparr>]"
  by (simp add: preprocessQuery_def sections_823 concepts_823 validate_823 codeType_823
        sectionsOf_823 validateExtracted_def VALID_IPC_SECTIONS_def Let_def)

section \<open>Regular expressions: what a match consumes\<close>

lemma star_suffix:
  assumes f: "\<And>st st'. st' \<in> set (f st) \<Longrightarrow> \<exists>u. unread st = u @ unread st'"
  shows "st' \<in> set (star fuel f st) \<Longrightarrow> \<exists>u. unread st = u @ unread st'"
proof (induction fuel arbitrary: st)
  case Nil
  then show ?case by simp
next
  case (Cons x fuel)
  from Cons.prems consider "st' = st"
    | st1 where "st1 \<in> set (f st)" "st' \<in> set (star fuel f st1)"
    by auto
  then show ?case
  proof cases
    case 1
    then show ?thesis by simp
  next
    case 2
    from f [OF 2(1)] obtain u where u: "unread st = u @ unread st1" by blast
    from Cons.IH [OF 2(2)] obtain v where v: "unread st1 = v @ unread st'" by blast
    from u v have "unread st = (u @ v) @ unread st'" by simp
    then show ?thesis by blast
  qed
qed

lemma step_suffix: "st' \<in> set (step ci r st) \<Longrightarrow> \<exists>u. unread st = u @ unread st'"
proof (induction r arbitrary: st st')
  case Eps
  then show ?case by simp
next
  case (Atom k)
  obtain p s caps where st: "st = (p, s, caps)" by (cases st)
  with Atom show ?case by (cases s) (auto split: if_splits)
next
  case (Seq a b)
  from Seq.prems obtain st1 where 1: "st1 \<in> set (step ci a st)" and 2: "st' \<in> set (step ci b st1)"
    by auto
  from Seq.IH(1) [OF 1] obtain u where u: "unread st = u @ unread st1" by blast
  from Seq.IH(2) [OF 2] obtain v where v: "unread st1 = v @ unread st'" by blast
  from u v have "unread st = (u @ v) @ unread st'" by simp
  then show ?case by blast
next
  case (Alt a b)
  from Alt.prems have "st' \<in> set (step ci a st) \<or> st' \<in> set (step ci b st)" by simp
  then show ?case using Alt.IH by blast
next
  case (Star a)
  obtain p s caps where st: "st = (p, s, caps)" by (cases st)
  with Star.prems have "st' \<in> set (star s (step ci a) st)" by simp
  then show ?case using Star.IH by (rule star_suffix [rotated])
next
  case (Plus a)
  from Plus.prems obtain st1 where 1: "st1 \<in> set (step ci a st)"
    and 2: "st' \<in> set (star (unread st1) (step ci a) st1)"
    by (auto simp: case_prod_beta)
  from Plus.IH [OF 1] obtain u where u: "unread st = u @ unread st1" by blast
  from 2 have "\<exists>v. unread st1 = v @ unread st'" using Plus.IH by (rule star_suffix [rotated])
  then obtain v where v: "unread st1 = v @ unread st'" by blast
  from u v have "unread st = (u @ v) @ unread st'" by simp
  then show ?case by blast
next
  case (Opt a)
  from Opt.prems have "st' \<in> set (step ci a st) \<or> st' = st" by auto
  then show ?case
  proof
    assume "st' \<in> set (step ci a st)"
    then show ?thesis by (rule Opt.IH)
  next
    assume "st' = st"
    then show ?thesis by simp
  qed
next
  case Bol
  obtain p s caps where st: "st = (p, s, caps)" by (cases st)
  with Bol show ?case by (auto split: if_splits)
next
  case Eol
  obtain p s caps where st: "st = (p, s, caps)" by (cases st)
  with Eol show ?case by (auto split: if_splits)
next
  case WordB
  obtain p s caps where st: "st = (p, s, caps)" by (cases st)
  with WordB show ?case by (auto split: if_splits)
next
  case (Look a)
  then show ?case by (auto split: if_splits)
next
  case (Group n a)
  obtain p s caps where st: "st = (p, s, caps)" by (cases st)
  with Group.prems obtain st1 where 1: "st1 \<in> set (step ci a st)" and 2: "unread st' = unread st1"
    by auto
  from Group.IH [OF 1] 2 show ?case by simp
qed

lemma step_length: "st' \<in> set (step ci r st) \<Longrightarrow> length (unread st') \<le> length (unread st)"
  using step_suffix [of st' ci r st] by auto

lemma star_length:
  "st' \<in> set (star fuel (step ci a) st) \<Longrightarrow> length (unread st') \<le> length (unread st)"
  using star_suffix [of "step ci a" st' fuel st] step_suffix by fastforce

lemma star_same:
  "st' \<in> set (star fuel (step ci a) st) \<Longrightarrow> length (unread st') = length (unread st) \<Longrightarrow> st' = st"
proof (cases fuel)
  case Nil
  assume "st' \<in> set (star fuel (step ci a) st)"
  with Nil show ?thesis by simp
next
  case (Cons x fuel')
  assume mem: "st' \<in> set (star fuel (step ci a) st)" and len: "length (unread st') = length (unread st)"
  from mem Cons consider "st' = st"
    | st1 where "st1 \<in> set (step ci a st)" "length (unread st1) < length (unread st)"
        "st' \<in> set (star fuel' (step ci a) st1)"
    by auto
  then show ?thesis
  proof cases
    case 1
    then show ?thesis .
  next
    case 2
    from star_length [OF 2(3)] 2(2) len show ?thesis by simp
  qed
qed

lemma step_consumes:
  "st' \<in> set (step ci r st) \<Longrightarrow> \<not> nullable r \<Longrightarrow> length (unread st') < length (unread st)"
proof (induction r arbitrary: st st')
  case (Atom k)
  obtain p s caps where st: "st = (p, s, caps)" by (cases st)
  with Atom show ?case by (cases s) (auto split: if_splits)
next
  case (Seq a b)
  from Seq.prems obtain st1 where 1: "st1 \<in> set (step ci a st)" and 2: "st' \<in> set (step ci b st1)"
    by auto
  from Seq.prems have "\<not> nullable a \<or> \<not> nullable b" by simp
  then show ?case
  proof
    assume "\<not> nullable a"
    from Seq.IH(1) [OF 1 this] step_length [OF 2] show ?thesis by simp
  next
    assume "\<not> nullable b"
    from Seq.IH(2) [OF 2 this] step_length [OF 1] show ?thesis by simp
  qed
next
  case (Alt a b)
  from Alt.prems have "st' \<in> set (step ci a st) \<or> st' \<in> set (step ci b st)"
    and "\<not> nullable a" and "\<not> nullable b" by simp_all
  then show ?case using Alt.IH by blast
next
  case (Plus a)
  from Plus.prems obtain st1 where 1: "st1 \<in> set (step ci a st)"
    and 2: "st' \<in> set (star (unread st1) (step ci a) st1)"
    by (auto simp: case_prod_beta)
  from Plus.prems have "\<not> nullable a" by simp
  from Plus.IH [OF 1 this] star_length [OF 2] show ?case by simp
next
  case (Group n a)
  obtain p s caps where st: "st = (p, s, caps)" by (cases st)
  with Group.prems obtain st1 where 1: "st1 \<in> set (step ci a st)" and 2: "unread st' = unread st1"
    by auto
  from Group.prems have "\<not> nullable a" by simp
  from Group.IH [OF 1 this] 2 show ?case by simp
qed simp_all

lemma firstOk_append: "firstOk ci ks s \<Longrightarrow> firstOk ci (ks @ ks') s \<and> firstOk ci (ks' @ ks) s"
  by (cases s) (auto simp: firstOk_def list_ex_iff)

lemma same_rest:
  assumes "st' \<in> set (step ci r st)" and "\<not> length (unread st') < length (unread st)"
  shows "unread st' = unread st"
proof -
  from step_suffix [OF assms(1)] obtain u where "unread st = u @ unread st'" by blast
  with assms(2) show ?thesis by (cases u) auto
qed

lemma step_null:
  "st' \<in> set (step ci r st) \<Longrightarrow> unread st' = unread st \<Longrightarrow> nullable r"
  using step_consumes [of st' ci r st] by auto

lemma step_first:
  "st' \<in> set (step ci r st) \<Longrightarrow> length (unread st') < length (unread st)
     \<Longrightarrow> firstOk ci (firsts r) (unread st)"
proof (induction r arbitrary: st st')
  case Eps
  then show ?case by simp
next
  case (Atom k)
  obtain p s caps where st: "st = (p, s, caps)" by (cases st)
  with Atom show ?case by (cases s) (auto simp: firstOk_def split: if_splits)
next
  case (Seq a b)
  from Seq.prems obtain st1 where 1: "st1 \<in> set (step ci a st)" and 2: "st' \<in> set (step ci b st1)"
    by auto
  show ?case
  proof (cases "length (unread st1) < length (unread st)")
    case True
    from Seq.IH(1) [OF 1 True] show ?thesis by (simp add: firstOk_append)
  next
    case False
    with 1 have same: "unread st1 = unread st" by (rule same_rest)
    with 1 have n: "nullable a" by (rule step_null)
    from Seq.prems(2) same have "length (unread st') < length (unread st1)" by simp
    from Seq.IH(2) [OF 2 this] same n show ?thesis by (simp add: firstOk_append)
  qed
next
  case (Alt a b)
  from Alt.prems have "st' \<in> set (step ci a st) \<or> st' \<in> set (step ci b st)" by simp
  then have "firstOk ci (firsts a) (unread st) \<or> firstOk ci (firsts b) (unread st)"
    using Alt.IH Alt.prems(2) by blast
  then show ?case using firstOk_append by auto
next
  case (Star a)
  obtain p s caps where st: "st = (p, s, caps)" by (cases st)
  with Star.prems have mem: "st' \<in> set (star s (step ci a) st)" by simp
  show ?case
  proof (cases s)
    case Nil
    with mem st Star.prems show ?thesis by simp
  next
    case (Cons x fuel)
    with mem Star.prems(2) obtain st1 where "st1 \<in> set (step ci a st)"
      "length (unread st1) < length (unread st)"
      by auto
    with Star.IH show ?thesis by simp
  qed
next
  case (Plus a)
  from Plus.prems obtain st1 where 1: "st1 \<in> set (step ci a st)"
    and 2: "st' \<in> set (star (unread st1) (step ci a) st1)"
    by (auto simp: case_prod_beta)
  show ?case
  proof (cases "length (unread st1) < length (unread st)")
    case True
    from Plus.IH [OF 1 True] show ?thesis by simp
  next
    case False
    with 1 have same: "unread st1 = unread st" by (rule same_rest)
    from Plus.prems(2) same have less: "length (unread st') < length (unread st1)" by simp
    obtain x fuel where f: "unread st1 = x # fuel" using less by (cases "unread st1") auto
    with 2 less obtain st2 where "st2 \<in> set (step ci a st1)"
      "length (unread st2) < length (unread st1)"
      by auto
    with Plus.IH have "firstOk ci (firsts a) (unread st1)" by blast
    with same show ?thesis by simp
  qed
next
  case (Opt a)
  from Opt.prems have "st' \<in> set (step ci a st)" by auto
  then show ?case using Opt.IH Opt.prems(2) by simp
next
  case Bol
  obtain p s caps where st: "st = (p, s, caps)" by (cases st)
  with Bol show ?case by (auto split: if_splits)
next
  case Eol
  obtain p s caps where st: "st = (p, s, caps)" by (cases st)
  with Eol show ?case by (auto split: if_splits)
next
  case WordB
  obtain p s caps where st: "st = (p, s, caps)" by (cases st)
  with WordB show ?case by (auto split: if_splits)
next
  case (Look a)
  then show ?case by (auto split: if_splits)
next
  case (Group n a)
  obtain p s caps where st: "st = (p, s, caps)" by (cases st)
  with Group.prems obtain st1 where 1: "st1 \<in> set (step ci a st)" and 2: "unread st' = unread st1"
    by auto
  from Group.IH [OF 1] 2 Group.prems(2) show ?case by simp
qed

section \<open>Regular expressions: searching\<close>

lemma findFrom_Some:
  "findFrom ci r p s = Some (k, st') \<Longrightarrow>
     k \<le> length s \<and> (\<exists>p'. st' \<in> set (step ci r (p', drop k s, [])))"
proof (induction s arbitrary: p k)
  case Nil
  then obtain sts where "step ci r (p, [], []) = st' # sts" and "k = 0"
    by (auto split: list.splits)
  then have "st' \<in> set (step ci r (p, drop k [], []))" by simp
  with \<open>k = 0\<close> show ?case by blast
next
  case (Cons c cs)
  show ?case
  proof (cases "step ci r (p, c # cs, [])")
    case Nil
    with Cons.prems obtain k' where k: "k = Suc k'"
      and f: "findFrom ci r (Some c) cs = Some (k', st')"
      by (auto split: option.splits)
    from Cons.IH [OF f] k show ?thesis by simp
  next
    case (Cons st sts)
    with Cons.prems have "k = 0" and "st' = st" by simp_all
    with Cons have "st' \<in> set (step ci r (p, drop k (c # cs), []))" by simp
    with \<open>k = 0\<close> show ?thesis by blast
  qed
qed

lemma findFrom_progress:
  assumes "findFrom ci r p s = Some (k, st')" and "\<not> nullable r"
  shows "k < length s \<and> length (unread st') < length s - k \<and> firstOk ci (firsts r) (drop k s)"
proof -
  from findFrom_Some [OF assms(1)] obtain p' where k: "k \<le> length s"
    and mem: "st' \<in> set (step ci r (p', drop k s, []))" by blast
  from step_consumes [OF mem assms(2)] have less: "length (unread st') < length s - k" by simp
  from step_first [OF mem] less have "firstOk ci (firsts r) (drop k s)" by simp
  with less show ?thesis by simp
qed

lemma findFrom_None:
  "findFrom ci r p s = None \<Longrightarrow> k \<le> length s \<Longrightarrow> \<exists>p'. step ci r (p', drop k s, []) = []"
proof (induction s arbitrary: p k)
  case Nil
  then show ?case by (auto split: list.splits)
next
  case (Cons c cs)
  from Cons.prems(1) have here: "step ci r (p, c # cs, []) = []"
    and there: "findFrom ci r (Some c) cs = None"
    by (auto split: list.splits option.splits)
  show ?case
  proof (cases k)
    case 0
    with here show ?thesis by auto
  next
    case (Suc k')
    with Cons.prems(2) have "k' \<le> length cs" by simp
    from Cons.IH [OF there this] Suc show ?thesis by simp
  qed
qed

lemma execLoop_total:
  "\<not> nullable r \<Longrightarrow> \<exists>ms. execLoop ci r p s base = Some ms"
proof (induction ci r p s base rule: execLoop.induct)
  case (1 ci r p s base)
  show ?case
  proof (cases "findFrom ci r p s")
    case None
    then show ?thesis by (simp add: execLoop.simps)
  next
    case (Some found)
    obtain k p' s' caps where found: "found = (k, p', s', caps)" by (cases found) auto
    with Some have f: "findFrom ci r p s = Some (k, (p', s', caps))" by simp
    from findFrom_progress [OF f "1.prems"] have less: "length s' < length s - k" by simp
    from "1.IH" [OF f refl refl refl less "1.prems"]
    obtain ms where "execLoop ci r p' s' (base + (length s - length s')) = Some ms" by blast
    with f less show ?thesis by (simp add: execLoop.simps [of ci r p s base])
  qed
qed

lemma execLoop_index:
  "execLoop ci r p s base = Some ms \<Longrightarrow> \<not> nullable r \<Longrightarrow> m \<in> set ms \<Longrightarrow>
     base \<le> index m \<and> index m - base < length s
     \<and> firstOk ci (firsts r) (drop (index m - base) s)"
proof (induction ci r p s base arbitrary: ms rule: execLoop.induct)
  case (1 ci r p s base)
  show ?case
  proof (cases "findFrom ci r p s")
    case None
    with "1.prems" show ?thesis by (simp add: execLoop.simps [of ci r p s base])
  next
    case (Some found)
    obtain k p' s' caps where found: "found = (k, p', s', caps)" by (cases found) auto
    with Some have f: "findFrom ci r p s = Some (k, (p', s', caps))" by simp
    from findFrom_progress [OF f "1.prems"(2)] have k: "k < length s"
      and less: "length s' < length s - k"
      and first: "firstOk ci (firsts r) (drop k s)" by simp_all
    from "1.prems"(1) f less obtain ms' where
      rec: "execLoop ci r p' s' (base + (length s - length s')) = Some ms'"
      and ms: "ms = \<lparr>index = base + k, matched = take (length s - k - length s') (drop k s),
                      groups = caps\<rparr> # ms'"
      by (auto simp: execLoop.simps [of ci r p s base] split: option.splits)
    from "1.prems"(3) ms consider "index m = base + k" | "m \<in> set ms'" by auto
    then show ?thesis
    proof cases
      case 1
      with k first show ?thesis by simp
    next
      case 2
      from findFrom_Some [OF f] obtain p'' where
        mem: "(p', s', caps) \<in> set (step ci r (p'', drop k s, []))" by blast
      from step_suffix [OF mem] obtain u where u: "drop k s = u @ s'" by auto
      then have s': "s' = drop (length s - length s') s"
        by (metis append_eq_conv_conj append_take_drop_id drop_drop length_append
            add_diff_cancel_right' length_drop add.commute diff_diff_cancel k less_imp_le_nat
            diff_le_self)
      from "1.IH" [OF f refl refl refl less rec "1.prems"(2) 2]
      have a: "base + (length s - length s') \<le> index m"
        and b: "index m - (base + (length s - length s')) < length s'"
        and c: "firstOk ci (firsts r) (drop (index m - (base + (length s - length s'))) s')"
        by simp_all
      from less have ls: "length s' \<le> length s" by simp
      from a have 1: "base \<le> index m" by simp
      from a b ls have 2: "index m - base < length s" by linarith
      from a ls have e: "index m - base = (index m - (base + (length s - length s'))) + (length s - length s')"
        by linarith
      have "drop (index m - base) s = drop (index m - (base + (length s - length s'))) s'"
        by (subst e, subst s') (simp add: add.commute)
      with c 1 2 show ?thesis by simp
    qed
  qed
qed

section \<open>Texts a pattern cannot match in; sentence boundaries\<close>

lemma step_none:
  assumes "\<not> nullable r" and "\<not> firstOk ci (firsts r) s"
  shows "step ci r (p, s, caps) = []"
proof (rule ccontr)
  assume "step ci r (p, s, caps) \<noteq> []"
  then obtain st' where mem: "st' \<in> set (step ci r (p, s, caps))"
    by (cases "step ci r (p, s, caps)") auto
  from step_consumes [OF mem assms(1)] have "length (unread st') < length s" by simp
  with step_first [OF mem] assms(2) show False by simp
qed

lemma foreign_Cons: "foreign ci r (c # cs) \<Longrightarrow> foreign ci r cs"
  by (simp add: foreign_def)

lemma foreign_step: "foreign ci r s \<Longrightarrow> step ci r (p, s, caps) = []"
  by (rule step_none) (auto simp: foreign_def firstOk_def split: list.splits)

lemma foreign_findFrom: "foreign ci r s \<Longrightarrow> findFrom ci r p s = None"
proof (induction s arbitrary: p)
  case Nil
  then show ?case by (simp add: foreign_step)
next
  case (Cons c cs)
  from Cons.IH [OF foreign_Cons [OF Cons.prems]] foreign_step [OF Cons.prems]
  show ?case by simp
qed

lemma foreign_searchFrom: "foreign ci r s \<Longrightarrow> \<not> searchFrom ci r p s"
proof (induction s arbitrary: p)
  case Nil
  then show ?case by (simp add: foreign_step)
next
  case (Cons c cs)
  from Cons.IH [OF foreign_Cons [OF Cons.prems]] foreign_step [OF Cons.prems]
  show ?case by simp
qed

lemma foreign_replaceFrom: "foreign ci r s \<Longrightarrow> replaceFrom ci r rep p s = s"
proof (induction s arbitrary: p)
  case Nil
  then show ?case by (simp add: replaceFrom.simps [of ci r rep p "[]"] foreign_step)
next
  case (Cons c cs)
  from Cons.IH [OF foreign_Cons [OF Cons.prems]] foreign_step [OF Cons.prems]
  show ?case by (simp add: replaceFrom.simps [of ci r rep p "c # cs"])
qed

lemma foreign_replaceAll: "foreign ci r s \<Longrightarrow> replaceAll ci r rep s = s"
  by (simp add: replaceAll_def foreign_replaceFrom)

lemma foreign_matchRe: "foreign ci r s \<Longrightarrow> matchRe ci r s = None"
  by (simp add: matchRe_def foreign_findFrom)


lemma foreign_test: "foreign ci r s \<Longrightarrow> \<not> test ci r s"
  by (simp add: test_def foreign_searchFrom)

lemma firstOk_drop:
  assumes "firstOk ci ks (drop i s)"
  shows "i < length s \<and> list_ex (\<lambda>k. cmatch ci k (s ! i)) ks"
proof -
  from assms obtain x xs where d: "drop i s = x # xs" and m: "list_ex (\<lambda>k. cmatch ci k x) ks"
    by (cases "drop i s") (auto simp: firstOk_def)
  from d have i: "i < length s" by (cases "i < length s") auto
  from d i have "s ! i = x" by (metis hd_drop_conv_nth list.sel(1))
  with i m show ?thesis by simp
qed

lemma execAll_atFirst:
  assumes "execAll False r s = Some ms" and "\<not> nullable r" and "m \<in> set ms"
  shows "index m < length s \<and> list_ex (\<lambda>k. cmatch False k (s ! index m)) (firsts r)"
proof -
  from execLoop_index [OF assms(1) [unfolded execAll_def] assms(2,3)]
  have "firstOk False (firsts r) (drop (index m) s)" by simp
  then show ?thesis by (rule firstOk_drop)
qed

lemma matchIndices_total:
  "\<forall>r \<in> set patterns. \<not> nullable r \<Longrightarrow>
     \<exists>found. matchIndices patterns s = Some found
       \<and> (\<forall>is \<in> set found. \<forall>i \<in> set is. atFirst patterns s i)"
proof (induction patterns)
  case Nil
  then show ?case by simp
next
  case (Cons r patterns)
  from Cons.prems have nn: "\<not> nullable r" by simp
  from execLoop_total [OF nn] obtain ms where ms: "execAll False r s = Some ms"
    unfolding execAll_def by blast
  from Cons have "\<exists>found. matchIndices patterns s = Some found
       \<and> (\<forall>is \<in> set found. \<forall>i \<in> set is. atFirst patterns s i)" by simp
  then obtain found where found: "matchIndices patterns s = Some found"
    and ok: "\<forall>is \<in> set found. \<forall>i \<in> set is. atFirst patterns s i" by blast
  have here: "\<forall>i \<in> set (map index ms). atFirst (r # patterns) s i"
    using execAll_atFirst [OF ms nn] by (auto simp: atFirst_def list_ex_iff)
  from ok have there: "\<forall>is \<in> set found. \<forall>i \<in> set is. atFirst (r # patterns) s i"
    by (simp add: atFirst_def list_ex_iff) blast
  from ms found here there show ?case by simp
qed

lemma scanAll_kept:
  "kept P offset bound best \<Longrightarrow> \<forall>i \<in> set is. P i \<Longrightarrow> kept P offset bound (scanAll offset bound best is)"
proof (induction "is" arbitrary: best)
  case Nil
  then show ?case by (simp add: scanAll_def)
next
  case (Cons i "is")
  have "kept P offset bound
          (if better bound best (offset + real i + 1) then offset + real i + 1 else best)"
    using Cons.prems by (auto simp: kept_def better_def)
  from Cons.IH [OF this] Cons.prems(2) show ?case by (simp add: scanAll_def)
qed

lemma scanFirst_kept:
  "kept P offset bound best \<Longrightarrow> \<forall>i \<in> set is. P i \<Longrightarrow> kept P offset bound (scanFirst offset bound best is)"
proof -
  assume k: "kept P offset bound best" and all: "\<forall>i \<in> set is. P i"
  show ?thesis
  proof (cases "filter (\<lambda>i. better bound best (offset + real i + 1)) is")
    case Nil
    with k show ?thesis by (simp add: scanFirst_def)
  next
    case (Cons i unread)
    then have "i \<in> set (filter (\<lambda>i. better bound best (offset + real i + 1)) is)" by simp
    then have "i \<in> set is" and "better bound best (offset + real i + 1)" by simp_all
    with all Cons show ?thesis by (auto simp: scanFirst_def kept_def better_def)
  qed
qed

lemma foldl_kept:
  assumes step: "\<And>best is. kept P offset bound best \<Longrightarrow> \<forall>i \<in> set is. P i
                   \<Longrightarrow> kept P offset bound (f best is)"
  shows "kept P offset bound best \<Longrightarrow> \<forall>is \<in> set found. \<forall>i \<in> set is. P i
           \<Longrightarrow> kept P offset bound (foldl f best found)"
proof (induction found arbitrary: best)
  case Nil
  then show ?case by simp
next
  case (Cons "is" found)
  from step [OF Cons.prems(1)] Cons.prems(2) have "kept P offset bound (f best is)" by simp
  from Cons.IH [OF this] Cons.prems(2) show ?case by simp
qed

lemma nonnull_sentenceEndings: "\<forall>r \<in> set sentenceEndings. \<not> nullable r"
  by (simp add: sentenceEndings_def)

lemma nonnull_fallbackPatterns: "\<forall>r \<in> set fallbackPatterns. \<not> nullable r"
  by (simp add: fallbackPatterns_def)

lemma atFirst_sentence: "atFirst sentenceEndings s i \<Longrightarrow> i < length s \<and> s ! i \<in> punctuation"
  by (auto simp: atFirst_def sentenceEndings_def punctuation_def)

lemma atFirst_fallback: "atFirst fallbackPatterns s i \<Longrightarrow> i < length s \<and> s ! i \<in> punctuation"
  by (auto simp: atFirst_def fallbackPatterns_def punctuation_def)

text \<open>The result of findSentenceBoundary on a text longer than the maximum.\<close>

lemma findSentenceBoundary_long:
  fixes str :: string and startPos maxLength :: nat
  assumes long: "length str > maxLength"
  defines "minLength \<equiv> min 1000 (real maxLength * 0.7)"
  defines "searchText \<equiv> substring str (nat \<lfloor>real startPos + minLength\<rfloor>) (startPos + maxLength + 200)"
  shows "\<exists>b. findSentenceBoundary str startPos maxLength = Some b
           \<and> (b = real (startPos + maxLength)
               \<or> (0 < b \<and> b < real (startPos + maxLength)
                   \<and> (\<exists>i < length searchText. searchText ! i \<in> punctuation
                         \<and> b = real startPos + minLength + real i + 1)))"
proof -
  define P where "P = (\<lambda>i. i < length searchText \<and> searchText ! i \<in> punctuation)"
  define offset where "offset = real startPos + minLength"
  define bound where "bound = real (startPos + maxLength)"
  from matchIndices_total [OF nonnull_sentenceEndings, of searchText]
  obtain found1 where f1: "matchIndices sentenceEndings searchText = Some found1"
    and ok1: "\<forall>is \<in> set found1. \<forall>i \<in> set is. P i"
    using atFirst_sentence unfolding P_def by blast
  from matchIndices_total [OF nonnull_fallbackPatterns, of searchText]
  obtain found2 where f2: "matchIndices fallbackPatterns searchText = Some found2"
    and ok2: "\<forall>is \<in> set found2. \<forall>i \<in> set is. P i"
    using atFirst_fallback unfolding P_def by blast
  define best1 where "best1 = foldl (scanAll offset bound) (- 1) found1"
  define best2 where "best2 = foldl (scanFirst offset bound) best1 found2"
  have k0: "kept P offset bound (- 1)" by (simp add: kept_def)
  have k1: "kept P offset bound best1"
    unfolding best1_def using scanAll_kept k0 ok1 by (rule foldl_kept)
  have k2: "kept P offset bound best2"
    unfolding best2_def using scanFirst_kept k1 ok2 by (rule foldl_kept)
  define result where "result = (\<lambda>best. if best > 0 then best else bound)"
  have res: "\<And>best. kept P offset bound best \<Longrightarrow>
      result best = bound \<or> (0 < result best \<and> result best < bound
         \<and> (\<exists>i < length searchText. searchText ! i \<in> punctuation
              \<and> result best = offset + real i + 1))"
    by (auto simp: kept_def result_def P_def)
  have eq: "findSentenceBoundary str startPos maxLength =
      Some (if best1 = - 1 then result best2 else result best1)"
    unfolding findSentenceBoundary_def Let_def minLength_def [symmetric]
      searchText_def [symmetric]
    using long f1 f2 by (simp add: best1_def best2_def result_def offset_def bound_def)
  show ?thesis
  proof (cases "best1 = - 1")
    case True
    with eq res [OF k2] show ?thesis by (auto simp: offset_def bound_def)
  next
    case False
    with eq res [OF k1] show ?thesis by (auto simp: offset_def bound_def)
  qed
qed

section \<open>Plain text\<close>

lemma foreign_replicate:
  "\<not> nullable r \<Longrightarrow> \<not> list_ex (\<lambda>k. cmatch ci k a) (firsts r) \<Longrightarrow> foreign ci r (replicate n a)"
  by (simp add: foreign_def)

lemma paraNumber_plain: "extractRealParagraphNumber (replicate n CHR ''a'') = None"
  by (simp add: extractRealParagraphNumber_def foreign_matchRe foreign_replicate char_eval)

lemma trim_plain: "trim (replicate n CHR ''a'') = replicate n CHR ''a''"
  by (simp add: trim_def char_eval)

lemma stripHtml_plain: "stripHtml (replicate n CHR ''a'') False = replicate n CHR ''a''"
  by (simp add: stripHtml_def Let_def entities_def foreign_replaceAll foreign_replicate trim_plain
        paraNumber_plain rx_numeral char_eval)




lemma paragraph_plain_short:
  "n \<le> m \<Longrightarrow> completeParagraph m i (replicate n CHR ''a'') =
     Some \<lparr>ptext = replicate n CHR ''a'', paragraphNumber = showNat (i + 1), isComplete = True\<rparr>"
  by (simp add: completeParagraph_def Let_def stripHtml_plain paraNumber_plain orOpt_def)

section \<open>Paragraphs\<close>

lemma completeParagraph_ok:
  "\<exists>p. completeParagraph maxLength i fragment = Some p
       \<and> length (ptext p) \<le> maxLength
       \<and> (isComplete p \<longleftrightarrow> length (stripHtml fragment False) \<le> maxLength)
       \<and> ptext p = take (length (ptext p)) (stripHtml fragment False)"
proof (cases "length (stripHtml fragment False) \<le> maxLength")
  case True
  then show ?thesis by (simp add: completeParagraph_def Let_def)
next
  case False
  then have long: "length (stripHtml fragment False) > maxLength" by simp
  from findSentenceBoundary_long [OF long, of 0]
  obtain b where b: "findSentenceBoundary (stripHtml fragment False) 0 maxLength = Some b"
    and range: "b = real maxLength \<or> (0 < b \<and> b < real maxLength)"
    by auto
  from range have le: "nat \<lfloor>b\<rfloor> \<le> maxLength" by (auto simp: le_nat_floor nat_le_iff floor_le_iff)
  from range long have notall: "\<not> b \<ge> real (length (stripHtml fragment False))" by auto
  from b False le notall show ?thesis
    by (simp add: completeParagraph_def Let_def substring_def min_def)
qed

lemma allSome_map_total:
  "(\<And>x. x \<in> set xs \<Longrightarrow> \<exists>y. f x = Some y \<and> Q x y)
     \<Longrightarrow> \<exists>ys. allSome (map f xs) = Some ys \<and> list_all2 Q xs ys"
proof (induction xs)
  case Nil
  then show ?case by simp
next
  case (Cons x xs)
  from Cons.prems obtain y where y: "f x = Some y" "Q x y" by auto
  from Cons obtain ys where ys: "allSome (map f xs) = Some ys" "list_all2 Q xs ys" by auto
  from y ys show ?case by simp
qed

text \<open>
  C10: for every list of fragments and every maximal length, extractCompleteParagraphs
  returns a list with one paragraph for each fragment, in the order of the fragments (the
  text of the i-th paragraph is a prefix of the cleaned text of the i-th fragment); the text
  of every paragraph is at most maxLength long; and a paragraph is marked complete exactly
  when the cleaned text of its fragment is at most maxLength long.
\<close>

theorem C10_one_paragraph_per_fragment:
  "\<exists>ps. extractCompleteParagraphs fragments maxLength = Some ps
        \<and> length ps = length fragments
        \<and> (\<forall>i < length fragments.
              length (ptext (ps ! i)) \<le> maxLength
              \<and> (isComplete (ps ! i) \<longleftrightarrow> length (stripHtml (fragments ! i) False) \<le> maxLength)
              \<and> ptext (ps ! i) = take (length (ptext (ps ! i))) (stripHtml (fragments ! i) False))"
proof -
  define Q where "Q = (\<lambda>(i :: nat, fragment) (p :: extractedParagraph).
       length (ptext p) \<le> maxLength
       \<and> (isComplete p \<longleftrightarrow> length (stripHtml fragment False) \<le> maxLength)
       \<and> ptext p = take (length (ptext p)) (stripHtml fragment False))"
  define xs where "xs = zip [0 ..< length fragments] fragments"
  have "\<And>x. x \<in> set xs \<Longrightarrow>
          \<exists>y. (\<lambda>(i, fragment). completeParagraph maxLength i fragment) x = Some y \<and> Q x y"
    using completeParagraph_ok by (auto simp: Q_def)
  then have "\<exists>ps. allSome (map (\<lambda>(i, fragment). completeParagraph maxLength i fragment) xs)
                   = Some ps \<and> list_all2 Q xs ps"
    by (rule allSome_map_total)
  then obtain ps where ps: "allSome (map (\<lambda>(i, fragment). completeParagraph maxLength i fragment) xs)
                         = Some ps"
    and all: "list_all2 Q xs ps" by blast
  from all have len: "length ps = length fragments"
    by (auto simp: xs_def dest: list_all2_lengthD)
  have "\<forall>i < length fragments. Q (i, fragments ! i) (ps ! i)"
  proof (intro allI impI)
    fix i assume i: "i < length fragments"
    then have "xs ! i = (i, fragments ! i)" by (simp add: xs_def)
    moreover from all i have "Q (xs ! i) (ps ! i)"
      by (simp add: list_all2_conv_all_nth xs_def)
    ultimately show "Q (i, fragments ! i) (ps ! i)" by simp
  qed
  with ps len show ?thesis
    by (simp add: extractCompleteParagraphs_def xs_def Q_def)
qed

text \<open>Two plain fragments of 20 and 40 characters, with the maximum 30.\<close>

theorem C10_one_paragraph_per_fragment_witness:
  "\<exists>ps. extractCompleteParagraphs [replicate 20 CHR ''a'', replicate 40 CHR ''a''] 30 = Some ps
     \<and> length ps = 2
     \<and> length (ptext (ps ! 0)) \<le> 30 \<and> isComplete (ps ! 0)
     \<and> length (ptext (ps ! 1)) \<le> 30 \<and> \<not> isComplete (ps ! 1)"
proof -
  from C10_one_paragraph_per_fragment [of "[replicate 20 CHR ''a'', replicate 40 CHR ''a'']" 30]
  obtain ps where ps: "extractCompleteParagraphs [replicate 20 CHR ''a'', replicate 40 CHR ''a''] 30
      = Some ps"
    and len: "length ps = 2"
    and all: "\<forall>i < 2. length (ptext (ps ! i)) \<le> 30
        \<and> (isComplete (ps ! i) \<longleftrightarrow>
             length (stripHtml ([replicate 20 CHR ''a'', replicate 40 CHR ''a''] ! i) False) \<le> 30)"
    by auto
  from all have "length (ptext (ps ! 0)) \<le> 30 \<and> isComplete (ps ! 0)"
    by (simp add: stripHtml_plain)
  moreover from all have "length (ptext (ps ! 1)) \<le> 30 \<and> \<not> isComplete (ps ! 1)"
    by (simp add: stripHtml_plain)
  ultimately show ?thesis using ps len by blast
qed




section \<open>Truncation at 1500 characters\<close>




section \<open>Ranking: the fallback below the threshold\<close>





lemma sortByRelevance_length: "length (sortByRelevance docs) = length docs"
  by (simp add: sortByRelevance_def)






text \<open>The tool never answers with an empty case list when a document got a score.\<close>

lemma rankAndRespond_nonempty:
  assumes some: "scoredDocs \<noteq> []" and limit: "1 \<le> limit"
  shows "srCases (rankAndRespond scoredDocs relevanceThreshold limit) \<noteq> []"
proof (cases "filter (\<lambda>doc. relevanceScore doc \<ge> relevanceThreshold) scoredDocs = []")
  case True
  with some limit show ?thesis
    by (cases scoredDocs) (auto simp: rankAndRespond_def Let_def sortByRelevance_def min_def)
next
  case False
  then have "sortByRelevance (filter (\<lambda>doc. relevanceScore doc \<ge> relevanceThreshold) scoredDocs) \<noteq> []"
    by (metis sortByRelevance_length length_0_conv)
  with limit show ?thesis
    by (auto simp: rankAndRespond_def Let_def)
qed

end
